theory Spec2Isabelle
  imports Main
begin

section \<open>The call session store (table \<open>call_sessions\<close> of the schema)\<close>

text \<open>
  The record follows the interface \<open>CallSession\<close> of the hook \<open>useVideoCall\<close> and the
  columns of the table \<open>call_sessions\<close>. Identifiers are the uuid strings of the schema;
  a timestamp is the reading of the clock (\<open>new Date().toISOString()\<close>), taken as a
  natural number. The field \<open>id\<close> of the source is \<open>id_cs\<close> here, since \<open>id\<close> is the
  identity function of HOL.
\<close>

type_synonym uuid = string
type_synonym timestamptz = nat

datatype CallType = video | audio

datatype CallStatus = pending | accepted | rejected | ended | missed

record CallSession =
  id_cs :: uuid
  caller_id :: uuid
  receiver_id :: uuid
  call_type :: CallType
  status :: CallStatus
  started_at :: "timestamptz option"
  ended_at :: "timestamptz option"

text \<open>
  The part of the database the table depends on: \<open>users\<close> (the target of both foreign
  keys), \<open>blocks\<close> (read by the insert policy, as pairs blocker, blocked) and the rows of
  \<open>call_sessions\<close> in insertion order.
\<close>

record database =
  users :: "uuid list"
  blocks :: "(uuid \<times> uuid) list"
  call_sessions :: "CallSession list"

datatype pg_error = rls_violation | check_violation | unique_violation | foreign_key_violation

text \<open>
  Policies "Users can view their blocks" and "Users can manage their blocks": a
  statement of a user reads the rows of \<open>blocks\<close> whose blocker is that user, and no
  other.
\<close>

definition users_can_view_their_blocks :: "uuid option \<Rightarrow> uuid \<times> uuid \<Rightarrow> bool" where
  "users_can_view_their_blocks uid b = (uid = Some (fst b))"

text \<open>
  Policy "Users can create calls": \<open>auth.uid() = caller_id\<close> and no row of \<open>blocks\<close>
  between the two parties, in either direction. The subquery runs as the caller, so it
  reads \<open>blocks\<close> through the policies of that table: a row in which the receiver
  blocked the caller is not visible to it.
\<close>

definition users_can_create_calls :: "uuid option \<Rightarrow> database \<Rightarrow> CallSession \<Rightarrow> bool" where
  "users_can_create_calls uid d r =
     (uid = Some (caller_id r) \<and>
      \<not> list_ex (\<lambda>(blocker_id, blocked_id).
            (blocker_id = receiver_id r \<and> Some blocked_id = uid) \<or>
            (Some blocker_id = uid \<and> blocked_id = receiver_id r))
          (filter (users_can_view_their_blocks uid) (blocks d)))"

text \<open>
  Policy "Users can update their calls" (and "Users can view their calls"):
  \<open>auth.uid() = caller_id OR auth.uid() = receiver_id\<close>.
\<close>

definition users_can_update_their_calls :: "uuid option \<Rightarrow> CallSession \<Rightarrow> bool" where
  "users_can_update_their_calls uid r =
     (uid = Some (caller_id r) \<or> uid = Some (receiver_id r))"

text \<open>
  \<open>INSERT INTO call_sessions\<close>. The checks of the statement in the order the database
  makes them: the row-level policy, the table's \<open>CHECK (caller_id != receiver_id)\<close>, the
  primary key, the two foreign keys. The checks on \<open>call_type\<close> and \<open>status\<close> are the
  two datatypes. A failed statement leaves the table as it was.
\<close>

definition insert_into_call_sessions :: "uuid option \<Rightarrow> CallSession \<Rightarrow> database \<Rightarrow> pg_error + database" where
  "insert_into_call_sessions uid r d =
     (if \<not> users_can_create_calls uid d r then Inl rls_violation
      else if caller_id r = receiver_id r then Inl check_violation
      else if list_ex (\<lambda>x. id_cs x = id_cs r) (call_sessions d) then Inl unique_violation
      else if \<not> (caller_id r \<in> set (users d) \<and> receiver_id r \<in> set (users d))
        then Inl foreign_key_violation
      else Inr (d\<lparr>call_sessions := call_sessions d @ [r]\<rparr>))"

text \<open>
  The payload of an \<open>update\<close>: the hook always writes \<open>status\<close> and one of the two
  timestamps; a column that is not in the payload (\<open>None\<close>) keeps its value.
\<close>

record update_payload =
  set_status :: CallStatus
  set_started_at :: "timestamptz option"
  set_ended_at :: "timestamptz option"

definition apply_update :: "update_payload \<Rightarrow> CallSession \<Rightarrow> CallSession" where
  "apply_update p r =
     r\<lparr>status := set_status p,
       started_at := (case set_started_at p of None \<Rightarrow> started_at r | Some t \<Rightarrow> Some t),
       ended_at := (case set_ended_at p of None \<Rightarrow> ended_at r | Some t \<Rightarrow> Some t)\<rparr>"

text \<open>
  \<open>UPDATE call_sessions SET ... WHERE id = callId\<close>: the policy restricts the statement
  to the rows of the caller and of the receiver, a row outside it is skipped without an
  error; the table's check is evaluated again on every new row and a failure rolls the
  statement back. Nothing in the schema looks at the old status of the row.
\<close>

definition targeted :: "uuid option \<Rightarrow> uuid \<Rightarrow> CallSession \<Rightarrow> bool" where
  "targeted uid callId r = (id_cs r = callId \<and> users_can_update_their_calls uid r)"

definition update_call_sessions :: "uuid option \<Rightarrow> uuid \<Rightarrow> update_payload \<Rightarrow> database \<Rightarrow> pg_error + database" where
  "update_call_sessions uid callId p d =
     (if list_ex (\<lambda>r. targeted uid callId r \<and> caller_id r = receiver_id r) (call_sessions d)
        then Inl check_violation
      else Inr (d\<lparr>call_sessions :=
                   map (\<lambda>r. if targeted uid callId r then apply_update p r else r)
                     (call_sessions d)\<rparr>))"

text \<open>The row with a given id, as \<open>select().eq('id', ...)\<close> would read it.\<close>

definition find_session :: "uuid \<Rightarrow> database \<Rightarrow> CallSession option" where
  "find_session callId d = find (\<lambda>r. id_cs r = callId) (call_sessions d)"

section \<open>Browser objects: tracks, streams, the peer connection\<close>

datatype TrackKind = audio_track | video_track

datatype ReadyState = live | track_ended

record MediaStreamTrack =
  kind :: TrackKind
  enabled :: bool
  readyState :: ReadyState

text \<open>
  Tracks are objects shared between the stream held in the hook's state, the closures
  that captured that stream and the senders of the peer connection; they live in a heap
  indexed by a track number, and a \<open>MediaStream\<close> is the list of its track numbers.
\<close>

type_synonym MediaStream = "nat list"

type_synonym sdp = string
type_synonym candidate = string

text \<open>
  The three payloads of the signaling channel, each with the call id: \<open>call-offer\<close> and
  \<open>ice-candidate\<close> as the hook broadcasts them, \<open>call-answer\<close> after the field
  \<open>answer\<close> of the interface \<open>CallOffer\<close> in \<open>types/index.ts\<close>. The offer of a
  \<open>call-offer\<close> is \<open>undefined\<close> (\<open>None\<close>) when there was no peer connection to
  create it.
\<close>

datatype SignalingMessage =
    call_offer "sdp option" uuid CallType
  | call_answer sdp uuid
  | ice_candidate candidate uuid

text \<open>What a callback does to the outside, in the order it does it.\<close>

datatype effect =
    store_insert CallSession
  | store_update uuid update_payload
  | get_user_media bool bool
  | new_peer_connection
  | add_track nat
  | set_local_description sdp
  | close_peer_connection
  | stop_track nat
  | send string SignalingMessage
  | console_error string

text \<open>
  A callback made by \<open>useCallback\<close> is a closure: it reads the state variables of the
  render that created it, not the ones of the moment it runs. The captured values are
  written out. \<open>endCall\<close> captures \<open>currentCall\<close> and \<open>localStream\<close>;
  \<open>initializePeerConnection\<close> captures \<open>currentCall\<close> (read by \<open>onicecandidate\<close>)
  and the \<open>endCall\<close> of its render (called by \<open>onconnectionstatechange\<close>).
\<close>

record endCall_closure =
  ec_currentCall :: "CallSession option"
  ec_localStream :: "MediaStream option"

record initializePeerConnection_closure =
  ipc_currentCall :: "CallSession option"
  ipc_endCall :: endCall_closure

datatype RTCPeerConnectionState =
  state_new | state_connecting | state_connected | state_disconnected | state_failed | state_closed

text \<open>
  The peer connection: the two handlers that capture something (by what they capture),
  the tracks added to it, both descriptions, the remote candidates applied to it and its
  connection state.
\<close>

record RTCPeerConnection =
  onicecandidate_currentCall :: "CallSession option"
  onconnectionstatechange_endCall :: endCall_closure
  senders :: "nat list"
  localDescription :: "sdp option"
  remoteDescription :: "sdp option"
  remoteCandidates :: "candidate list"
  connectionState :: RTCPeerConnectionState

section \<open>The hook \<open>useVideoCall\<close>\<close>

text \<open>
  One participant's controller: the signed-in user (whose id is also \<open>auth.uid()\<close> of
  every statement the client sends), the database, the seven state variables of the
  hook, the ref \<open>peerConnection\<close>, the heap of tracks and the trace of effects.
  Every callback runs to its end before the next event is handled.
\<close>

record world =
  user :: "uuid option"
  db :: database
  localStream :: "MediaStream option"
  remoteStream :: "MediaStream option"
  isCallActive :: bool
  incomingCall :: "CallSession option"
  currentCall :: "CallSession option"
  isVideoEnabled :: bool
  isAudioEnabled :: bool
  peerConnection :: "RTCPeerConnection option"
  tracks :: "nat \<Rightarrow> MediaStreamTrack"
  next_track :: nat
  trace :: "effect list"

text \<open>
  What the platform answers during one callback: the clock, the uuid the database
  generates for a new row, the outcome of the request for the capture devices
  (\<open>None\<close>: granted) and the offer \<open>createOffer\<close> returns.
\<close>

datatype DOMException = NotAllowedError | NotFoundError | NotReadableError

record environment =
  now :: timestamptz
  gen_random_uuid :: uuid
  permission :: "DOMException option"
  created_offer :: sdp

definition log :: "effect list \<Rightarrow> world \<Rightarrow> world" where
  "log es w = w\<lparr>trace := trace w @ es\<rparr>"

fun alloc_tracks :: "TrackKind list \<Rightarrow> nat \<Rightarrow> (nat \<Rightarrow> MediaStreamTrack) \<Rightarrow> (nat \<Rightarrow> MediaStreamTrack)" where
  "alloc_tracks [] n h = h"
| "alloc_tracks (k # ks) n h =
     alloc_tracks ks (Suc n) (h(n := \<lparr>kind = k, enabled = True, readyState = live\<rparr>))"

text \<open>
  \<open>getUserMedia(video, audio)\<close>: on success a new stream with one live, enabled track
  per requested kind, stored in \<open>localStream\<close>; on failure the error is logged and
  thrown again.
\<close>

definition getUserMedia :: "environment \<Rightarrow> bool \<Rightarrow> bool \<Rightarrow> world \<Rightarrow> (DOMException + MediaStream) \<times> world" where
  "getUserMedia env v a w =
     (case permission env of
        Some e \<Rightarrow>
          (Inl e, log [get_user_media v a, console_error ''Error accessing media devices:''] w)
      | None \<Rightarrow>
          (let kinds = (if a then [audio_track] else []) @ (if v then [video_track] else []);
               stream = [next_track w ..< next_track w + length kinds]
           in (Inr stream,
               (log [get_user_media v a] w)
                 \<lparr>tracks := alloc_tracks kinds (next_track w) (tracks w),
                  next_track := next_track w + length kinds,
                  localStream := Some stream\<rparr>)))"

definition initializePeerConnection :: "initializePeerConnection_closure \<Rightarrow> world \<Rightarrow> world" where
  "initializePeerConnection cl w =
     (case peerConnection w of
        Some pc \<Rightarrow> w
      | None \<Rightarrow>
          (log [new_peer_connection] w)
            \<lparr>peerConnection := Some
               \<lparr>onicecandidate_currentCall = ipc_currentCall cl,
                onconnectionstatechange_endCall = ipc_endCall cl,
                senders = [],
                localDescription = None,
                remoteDescription = None,
                remoteCandidates = [],
                connectionState = state_new\<rparr>\<rparr>)"

text \<open>\<open>stream.getTracks().forEach(track => peerConnection.current?.addTrack(track, stream))\<close>\<close>

definition addTracks :: "MediaStream \<Rightarrow> world \<Rightarrow> world" where
  "addTracks stream w =
     (case peerConnection w of
        None \<Rightarrow> w
      | Some pc \<Rightarrow>
          (log (map add_track stream) w)
            \<lparr>peerConnection := Some (pc\<lparr>senders := senders pc @ stream\<rparr>)\<rparr>)"

definition channel_name :: "uuid \<Rightarrow> string" where
  "channel_name callId = ''call:'' @ callId"

text \<open>\<open>createOffer\<close>, \<open>setLocalDescription(offer)\<close> and the broadcast of \<open>call-offer\<close>.\<close>

definition sendOffer :: "environment \<Rightarrow> CallSession \<Rightarrow> CallType \<Rightarrow> world \<Rightarrow> world" where
  "sendOffer env callSession callType w =
     (case peerConnection w of
        None \<Rightarrow>
          log [send (channel_name (id_cs callSession))
                 (call_offer None (id_cs callSession) callType)] w
      | Some pc \<Rightarrow>
          (log [set_local_description (created_offer env),
                send (channel_name (id_cs callSession))
                  (call_offer (Some (created_offer env)) (id_cs callSession) callType)] w)
            \<lparr>peerConnection := Some (pc\<lparr>localDescription := Some (created_offer env)\<rparr>)\<rparr>)"

text \<open>
  \<open>startCall(receiverId, callType)\<close>, with the \<open>initializePeerConnection\<close> its closure
  holds. The inserted row has the generated id, status \<open>pending\<close> and no timestamp.
\<close>

definition startCall :: "initializePeerConnection_closure \<Rightarrow> environment \<Rightarrow> uuid \<Rightarrow> CallType \<Rightarrow> world \<Rightarrow> world" where
  "startCall ipc env receiverId callType w =
     (case user w of
        None \<Rightarrow> w
      | Some uid \<Rightarrow>
          (let row = \<lparr>id_cs = gen_random_uuid env, caller_id = uid, receiver_id = receiverId,
                      call_type = callType, status = pending,
                      started_at = None, ended_at = None\<rparr>;
               w0 = log [store_insert row] w
           in case insert_into_call_sessions (Some uid) row (db w) of
                Inl error \<Rightarrow> log [console_error ''Error creating call session:''] w0
              | Inr d \<Rightarrow>
                  (let w1 = w0\<lparr>db := d, currentCall := Some row\<rparr>
                   in case getUserMedia env (callType = video) True w1 of
                        (Inl error, w2) \<Rightarrow> log [console_error ''Error starting call:''] w2
                      | (Inr stream, w2) \<Rightarrow>
                          sendOffer env row callType
                            (addTracks stream (initializePeerConnection ipc w2)))))"

text \<open>
  A statement of \<open>update\<close> as the hook sends it: the result is awaited and its
  \<open>error\<close> is never read, so a failed statement changes nothing and goes unnoticed.
\<close>

definition supabase_update :: "uuid \<Rightarrow> update_payload \<Rightarrow> world \<Rightarrow> world" where
  "supabase_update callId p w =
     (let w0 = log [store_update callId p] w
      in case update_call_sessions (user w) callId p (db w) of
           Inl error \<Rightarrow> w0
         | Inr d \<Rightarrow> w0\<lparr>db := d\<rparr>)"

text \<open>
  \<open>acceptCall(callId)\<close>, with the \<open>currentCall\<close> and the \<open>initializePeerConnection\<close>
  its closure holds.
\<close>

definition acceptCall :: "CallSession option \<Rightarrow> initializePeerConnection_closure \<Rightarrow> environment \<Rightarrow> uuid \<Rightarrow> world \<Rightarrow> world" where
  "acceptCall captured_currentCall ipc env callId w =
     (case captured_currentCall of
        None \<Rightarrow> w
      | Some c \<Rightarrow>
          (let w1 = supabase_update callId
                      \<lparr>set_status = accepted, set_started_at = Some (now env), set_ended_at = None\<rparr> w;
               w2 = w1\<lparr>isCallActive := True, incomingCall := None\<rparr>
           in case getUserMedia env (call_type c = video) True w2 of
                (Inl error, w3) \<Rightarrow> log [console_error ''Error accepting call:''] w3
              | (Inr stream, w3) \<Rightarrow> addTracks stream (initializePeerConnection ipc w3)))"

definition rejectCall :: "environment \<Rightarrow> uuid \<Rightarrow> world \<Rightarrow> world" where
  "rejectCall env callId w =
     (supabase_update callId
        \<lparr>set_status = rejected, set_started_at = None, set_ended_at = Some (now env)\<rparr> w)
       \<lparr>incomingCall := None, currentCall := None\<rparr>"

fun stop_tracks :: "nat list \<Rightarrow> (nat \<Rightarrow> MediaStreamTrack) \<Rightarrow> (nat \<Rightarrow> MediaStreamTrack)" where
  "stop_tracks [] h = h"
| "stop_tracks (t # ts) h = stop_tracks ts (h(t := (h t)\<lparr>readyState := track_ended\<rparr>))"

text \<open>
  \<open>endCall()\<close>, with the \<open>currentCall\<close> and the \<open>localStream\<close> its closure holds; the
  ref \<open>peerConnection\<close> is read when the callback runs.
\<close>

definition endCall :: "endCall_closure \<Rightarrow> environment \<Rightarrow> world \<Rightarrow> world" where
  "endCall cl env w =
     (let w1 = (case ec_currentCall cl of
                  None \<Rightarrow> w
                | Some c \<Rightarrow>
                    supabase_update (id_cs c)
                      \<lparr>set_status = ended, set_started_at = None, set_ended_at = Some (now env)\<rparr> w);
          w2 = (case peerConnection w1 of
                  None \<Rightarrow> w1
                | Some pc \<Rightarrow> log [close_peer_connection] w1);
          w3 = w2\<lparr>peerConnection := None\<rparr>;
          w4 = (case ec_localStream cl of
                  None \<Rightarrow> w3
                | Some stream \<Rightarrow>
                    (log (map stop_track stream) w3)\<lparr>tracks := stop_tracks stream (tracks w3)\<rparr>)
      in w4\<lparr>localStream := None, remoteStream := None, isCallActive := False,
            currentCall := None, incomingCall := None\<rparr>)"

definition getVideoTracks :: "MediaStream \<Rightarrow> world \<Rightarrow> nat list" where
  "getVideoTracks stream w = filter (\<lambda>t. kind (tracks w t) = video_track) stream"

definition getAudioTracks :: "MediaStream \<Rightarrow> world \<Rightarrow> nat list" where
  "getAudioTracks stream w = filter (\<lambda>t. kind (tracks w t) = audio_track) stream"

text \<open>\<open>toggleVideo()\<close> and \<open>toggleAudio()\<close>, with the \<open>localStream\<close> the closure holds.\<close>

definition toggleVideo :: "MediaStream option \<Rightarrow> world \<Rightarrow> world" where
  "toggleVideo captured_localStream w =
     (case captured_localStream of
        None \<Rightarrow> w
      | Some stream \<Rightarrow>
          (case getVideoTracks stream w of
             [] \<Rightarrow> w
           | videoTrack # rest \<Rightarrow>
               w\<lparr>tracks := (tracks w)
                    (videoTrack := (tracks w videoTrack)\<lparr>enabled := \<not> enabled (tracks w videoTrack)\<rparr>),
                 isVideoEnabled := \<not> enabled (tracks w videoTrack)\<rparr>))"

definition toggleAudio :: "MediaStream option \<Rightarrow> world \<Rightarrow> world" where
  "toggleAudio captured_localStream w =
     (case captured_localStream of
        None \<Rightarrow> w
      | Some stream \<Rightarrow>
          (case getAudioTracks stream w of
             [] \<Rightarrow> w
           | audioTrack # rest \<Rightarrow>
               w\<lparr>tracks := (tracks w)
                    (audioTrack := (tracks w audioTrack)\<lparr>enabled := \<not> enabled (tracks w audioTrack)\<rparr>),
                 isAudioEnabled := \<not> enabled (tracks w audioTrack)\<rparr>))"

subsection \<open>The handlers of the peer connection\<close>

text \<open>
  \<open>onicecandidate\<close>: a local candidate is broadcast on the channel of the captured
  current call; with no candidate or no captured call nothing is sent.
\<close>

definition onicecandidate :: "candidate option \<Rightarrow> world \<Rightarrow> world" where
  "onicecandidate event_candidate w =
     (case peerConnection w of
        None \<Rightarrow> w
      | Some pc \<Rightarrow>
          (case (event_candidate, onicecandidate_currentCall pc) of
             (Some c, Some call) \<Rightarrow>
               log [send (channel_name (id_cs call)) (ice_candidate c (id_cs call))] w
           | _ \<Rightarrow> w))"

definition ontrack :: "MediaStream \<Rightarrow> world \<Rightarrow> world" where
  "ontrack stream w =
     (case peerConnection w of None \<Rightarrow> w | Some pc \<Rightarrow> w\<lparr>remoteStream := Some stream\<rparr>)"

text \<open>
  \<open>onconnectionstatechange\<close>: the browser has moved the connection to the new state;
  the handler reads the state of the connection in the ref and, on \<open>disconnected\<close>,
  calls the \<open>endCall\<close> it captured when the connection was created.
\<close>

definition onconnectionstatechange :: "RTCPeerConnectionState \<Rightarrow> environment \<Rightarrow> world \<Rightarrow> world" where
  "onconnectionstatechange s env w =
     (case peerConnection w of
        None \<Rightarrow> w
      | Some pc \<Rightarrow>
          (let w1 = w\<lparr>peerConnection := Some (pc\<lparr>connectionState := s\<rparr>)\<rparr>
           in if s = state_disconnected
              then endCall (onconnectionstatechange_endCall pc) env w1
              else w1))"

subsection \<open>The subscription to call events\<close>

text \<open>
  What the realtime service can deliver to a client: a change of a row of
  \<open>call_sessions\<close>, or a broadcast on a named channel.
\<close>

datatype realtime_event =
    postgres_INSERT CallSession
  | postgres_UPDATE CallSession
  | broadcast string SignalingMessage

text \<open>
  The effect subscribes, once a user is signed in, to the channel \<open>call_events\<close> with
  two handlers, both for \<open>postgres_changes\<close>: inserts filtered by
  \<open>receiver_id=eq.user.id\<close>, and updates. No handler is registered for a broadcast,
  on this channel or on any other. The handlers read the \<open>currentCall\<close> and call the
  \<open>endCall\<close> of the render that subscribed.
\<close>

definition callSubscription :: "endCall_closure \<Rightarrow> environment \<Rightarrow> realtime_event \<Rightarrow> world \<Rightarrow> world" where
  "callSubscription cl env ev w =
     (case user w of
        None \<Rightarrow> w
      | Some uid \<Rightarrow>
          (case ev of
             postgres_INSERT callSession \<Rightarrow>
               if receiver_id callSession = uid \<and> status callSession = pending
               then w\<lparr>incomingCall := Some callSession, currentCall := Some callSession\<rparr>
               else w
           | postgres_UPDATE callSession \<Rightarrow>
               if map_option id_cs (ec_currentCall cl) = Some (id_cs callSession)
               then (let w1 = w\<lparr>currentCall := Some callSession\<rparr>
                     in if status callSession = ended \<or> status callSession = rejected
                        then endCall cl env w1
                        else w1)
               else w
           | broadcast channel message \<Rightarrow> w))"

text \<open>
  The closures of a render in which every dependency is up to date: \<open>endCall\<close> sees the
  state of the render; \<open>initializePeerConnection\<close> is made again only when
  \<open>currentCall\<close> changes, so the \<open>endCall\<close> inside it may hold an older
  \<open>localStream\<close>, here the one given.
\<close>

definition render_endCall :: "world \<Rightarrow> endCall_closure" where
  "render_endCall w = \<lparr>ec_currentCall = currentCall w, ec_localStream = localStream w\<rparr>"

definition render_initializePeerConnection :: "MediaStream option \<Rightarrow> world \<Rightarrow> initializePeerConnection_closure" where
  "render_initializePeerConnection older_localStream w =
     \<lparr>ipc_currentCall = currentCall w,
      ipc_endCall = \<lparr>ec_currentCall = currentCall w, ec_localStream = older_localStream\<rparr>\<rparr>"

text \<open>The hook as it is mounted: nothing in the state, no peer connection, no track.\<close>

definition mounted :: "uuid option \<Rightarrow> database \<Rightarrow> world" where
  "mounted u d =
     \<lparr>user = u, db = d, localStream = None, remoteStream = None, isCallActive = False,
      incomingCall = None, currentCall = None, isVideoEnabled = True, isAudioEnabled = True,
      peerConnection = None,
      tracks = (\<lambda>t. \<lparr>kind = audio_track, enabled = False, readyState = track_ended\<rparr>),
      next_track = 0, trace = []\<rparr>"

subsection \<open>Every way into the hook\<close>

text \<open>
  One constructor per callback and per handler, with the closure it runs in, the answers
  of the platform and its arguments; \<open>run\<close> runs it, and nothing more: the world it
  returns is the one the callback leaves, before React renders again. \<open>EndCall\<close> is
  also the cleanup of the hook's last effect, which calls the \<open>endCall\<close> of its render.
  Which closure a call runs in is decided by the renders that came before; a property
  proved for every action holds for every choice. The renders themselves, and the
  cleanup they fire, are the next subsection.
\<close>

datatype action =
    StartCall initializePeerConnection_closure environment uuid CallType
  | AcceptCall "CallSession option" initializePeerConnection_closure environment uuid
  | RejectCall environment uuid
  | EndCall endCall_closure environment
  | ToggleVideo "MediaStream option"
  | ToggleAudio "MediaStream option"
  | CallEvent endCall_closure environment realtime_event
  | IceCandidateEvent "candidate option"
  | TrackEvent MediaStream
  | ConnectionStateChange RTCPeerConnectionState environment

fun run :: "action \<Rightarrow> world \<Rightarrow> world" where
  "run (StartCall ipc env receiverId callType) w = startCall ipc env receiverId callType w"
| "run (AcceptCall cc ipc env callId) w = acceptCall cc ipc env callId w"
| "run (RejectCall env callId) w = rejectCall env callId w"
| "run (EndCall cl env) w = endCall cl env w"
| "run (ToggleVideo ls) w = toggleVideo ls w"
| "run (ToggleAudio ls) w = toggleAudio ls w"
| "run (CallEvent cl env ev) w = callSubscription cl env ev w"
| "run (IceCandidateEvent c) w = onicecandidate c w"
| "run (TrackEvent stream) w = ontrack stream w"
| "run (ConnectionStateChange s env) w = onconnectionstatechange s env w"

text \<open>The invariant of the table: the two parties of every row differ.\<close>

definition parties_differ :: "database \<Rightarrow> bool" where
  "parties_differ d = list_all (\<lambda>r. caller_id r \<noteq> receiver_id r) (call_sessions d)"

subsection \<open>The renders of the hook\<close>

text \<open>
  The hook between two events: its world, the \<open>endCall\<close> of the last render (the
  values of \<open>currentCall\<close> and \<open>localStream\<close> that render saw) and the memoised
  \<open>initializePeerConnection\<close>. The other callbacks are made from these:
  \<open>startCall\<close> and \<open>acceptCall\<close> hold the memoised \<open>initializePeerConnection\<close>,
  \<open>acceptCall\<close> and the subscription hold the \<open>currentCall\<close> of the last render,
  the toggles its \<open>localStream\<close>.
\<close>

record hook =
  hook_world :: world
  last_render :: endCall_closure
  last_initializePeerConnection :: initializePeerConnection_closure

text \<open>
  One render. When \<open>currentCall\<close> or \<open>localStream\<close> differs from what the last
  render saw, \<open>endCall\<close> is made again, and so the effect
  \<open>useEffect(() => { return () => { endCall(); }; }, [endCall])\<close> is run again: its
  cleanup first, which calls the \<open>endCall\<close> of the render before.
  \<open>initializePeerConnection\<close> is made again when \<open>currentCall\<close> differs. Values
  are compared as values; \<open>null\<close> is the only value a settled hook ever compares.
\<close>

definition render :: "environment \<Rightarrow> hook \<Rightarrow> hook" where
  "render env h =
     (let w = hook_world h; this_render = render_endCall w
      in if this_render = last_render h then h
         else \<lparr>hook_world = endCall (last_render h) env w,
               last_render = this_render,
               last_initializePeerConnection =
                 (if ec_currentCall this_render = ec_currentCall (last_render h)
                  then last_initializePeerConnection h
                  else \<lparr>ipc_currentCall = currentCall w, ipc_endCall = this_render\<rparr>)\<rparr>)"

text \<open>
  React renders until nothing changes. \<open>endCall\<close> leaves \<open>currentCall\<close> and
  \<open>localStream\<close> null, so two renders are enough: a third changes nothing
  (\<open>render_settle\<close> below).
\<close>

definition settle :: "environment \<Rightarrow> hook \<Rightarrow> hook" where
  "settle env h = render env (render env h)"

text \<open>What reaches the hook from outside: a call of its interface, or an event.\<close>

datatype event =
    call_startCall uuid CallType
  | call_acceptCall uuid
  | call_rejectCall uuid
  | call_endCall
  | call_toggleVideo
  | call_toggleAudio
  | realtime realtime_event
  | icecandidate "candidate option"
  | track MediaStream
  | connectionstatechange RTCPeerConnectionState

text \<open>The action an event is, in the closures of the last render.\<close>

fun in_last_render :: "environment \<Rightarrow> event \<Rightarrow> hook \<Rightarrow> action" where
  "in_last_render env (call_startCall receiverId callType) h =
     StartCall (last_initializePeerConnection h) env receiverId callType"
| "in_last_render env (call_acceptCall callId) h =
     AcceptCall (ec_currentCall (last_render h)) (last_initializePeerConnection h) env callId"
| "in_last_render env (call_rejectCall callId) h = RejectCall env callId"
| "in_last_render env call_endCall h = EndCall (last_render h) env"
| "in_last_render env call_toggleVideo h = ToggleVideo (ec_localStream (last_render h))"
| "in_last_render env call_toggleAudio h = ToggleAudio (ec_localStream (last_render h))"
| "in_last_render env (realtime ev) h = CallEvent (last_render h) env ev"
| "in_last_render env (icecandidate c) h = IceCandidateEvent c"
| "in_last_render env (track stream) h = TrackEvent stream"
| "in_last_render env (connectionstatechange s) h = ConnectionStateChange s env"

text \<open>
  One event: the callback runs, then React renders until nothing changes. The cleanups
  read the clock of the event.
\<close>

definition step :: "environment \<Rightarrow> event \<Rightarrow> hook \<Rightarrow> hook" where
  "step env e h = settle env (h\<lparr>hook_world := run (in_last_render env e h) (hook_world h)\<rparr>)"

definition mount :: "uuid option \<Rightarrow> database \<Rightarrow> hook" where
  "mount u d =
     \<lparr>hook_world = mounted u d,
      last_render = \<lparr>ec_currentCall = None, ec_localStream = None\<rparr>,
      last_initializePeerConnection =
        \<lparr>ipc_currentCall = None,
         ipc_endCall = \<lparr>ec_currentCall = None, ec_localStream = None\<rparr>\<rparr>\<rparr>"

text \<open>
  A hook at rest: the last render saw no call and no stream, the state holds none, and
  the ref holds no connection.
\<close>

definition at_rest :: "hook \<Rightarrow> bool" where
  "at_rest h =
     (last_render h = \<lparr>ec_currentCall = None, ec_localStream = None\<rparr> \<and>
      currentCall (hook_world h) = None \<and> localStream (hook_world h) = None \<and>
      peerConnection (hook_world h) = None)"

subsection \<open>A small cast for the examples\<close>

definition two_users :: database where
  "two_users = \<lparr>users = [''alice'', ''bob''], blocks = [], call_sessions = []\<rparr>"

definition pending_call :: CallSession where
  "pending_call = \<lparr>id_cs = ''c1'', caller_id = ''alice'', receiver_id = ''bob'',
                    call_type = video, status = pending, started_at = None, ended_at = None\<rparr>"

definition one_call :: database where
  "one_call = two_users\<lparr>call_sessions := [pending_call]\<rparr>"

definition granted :: environment where
  "granted = \<lparr>now = 7, gen_random_uuid = ''c1'', permission = None, created_offer = ''v=0''\<rparr>"

definition denied :: environment where
  "denied = granted\<lparr>permission := Some NotAllowedError\<rparr>"

definition first_render :: initializePeerConnection_closure where
  "first_render = \<lparr>ipc_currentCall = None,
                    ipc_endCall = \<lparr>ec_currentCall = None, ec_localStream = None\<rparr>\<rparr>"

text \<open>
  The world Alice's \<open>startCall\<close> to Bob leaves, run in the closures of the first
  render, and the world the handler of the insert leaves on Bob's side: each as the
  callback returns it, before the render that follows.
\<close>

definition alice_calling :: world where
  "alice_calling = startCall first_render granted ''bob'' video (mounted (Some ''alice'') two_users)"

definition bob_notified :: world where
  "bob_notified =
     callSubscription \<lparr>ec_currentCall = None, ec_localStream = None\<rparr> granted
       (postgres_INSERT pending_call) (mounted (Some ''bob'') one_call)"

text \<open>
  \<open>acceptCall\<close> in the closures of a render that saw the notified call, on the world
  the notification left; then a broadcast on the channel of the call reaches the
  client: the offer, or a candidate.
\<close>

definition bob_accepted :: world where
  "bob_accepted =
     acceptCall (Some pending_call) (render_initializePeerConnection None bob_notified)
       granted ''c1'' bob_notified"

definition bob_offered :: world where
  "bob_offered =
     callSubscription (render_endCall bob_accepted) granted
       (broadcast ''call:c1'' (call_offer (Some ''v=0'') ''c1'' video)) bob_accepted"

definition bob_with_candidate :: world where
  "bob_with_candidate =
     callSubscription (render_endCall bob_accepted) granted
       (broadcast ''call:c1'' (ice_candidate ''candidate:1'' ''c1'')) bob_accepted"

text \<open>The same platform two ticks later.\<close>

definition late :: environment where
  "late = granted\<lparr>now := 9\<rparr>"

text \<open>
  Bob's \<open>endCall\<close> in a closure that holds the accepted call (at 7), and then Alice's
  (at 9) in a closure that still holds it.
\<close>

definition bob_hung_up :: world where
  "bob_hung_up = endCall (render_endCall bob_accepted) granted bob_accepted"

definition alice_hangs_up_too :: world where
  "alice_hangs_up_too =
     endCall (render_endCall alice_calling) late (alice_calling\<lparr>db := db bob_hung_up\<rparr>)"

text \<open>
  The two hooks with their renders. Alice, mounted on the table of the two users, calls
  Bob (at 7) and her hook settles. Bob's hook is mounted on the table she leaves; the
  insert of her row, as it was inserted, is delivered to it (at 9) and it settles.
\<close>

definition alice_hook :: hook where
  "alice_hook = step granted (call_startCall ''bob'' video) (mount (Some ''alice'') two_users)"

definition bob_hook :: hook where
  "bob_hook =
     step late (realtime (postgres_INSERT pending_call))
       (mount (Some ''bob'') (db (hook_world alice_hook)))"


text \<open>The world her \<open>startCall\<close> leaves for an audio call: one track, no video.\<close>

definition alice_calling_audio :: world where
  "alice_calling_audio =
     startCall first_render granted ''bob'' audio (mounted (Some ''alice'') two_users)"

text \<open>
  The channels the hook is subscribed to: \<open>call_events\<close>, once a user is signed in;
  the source has no other \<open>subscribe()\<close> for calls.
\<close>

definition subscribed_channels :: "world \<Rightarrow> string list" where
  "subscribed_channels w = (case user w of None \<Rightarrow> [] | Some uid \<Rightarrow> [''call_events''])"

text \<open>
  The remote side of the peer connection in the ref, if there is one, is as the browser
  made it: no remote description, no remote candidate applied.
\<close>

definition remote_untouched :: "world \<Rightarrow> bool" where
  "remote_untouched w =
     (case peerConnection w of
        None \<Rightarrow> True
      | Some pc \<Rightarrow> remoteDescription pc = None \<and> remoteCandidates pc = [])"

section \<open>Properties\<close>

subsection \<open>The examples, evaluated\<close>

lemmas hook_defs =
  startCall_def acceptCall_def endCall_def rejectCall_def getUserMedia_def
  initializePeerConnection_def addTracks_def sendOffer_def supabase_update_def log_def
  insert_into_call_sessions_def update_call_sessions_def users_can_create_calls_def
  users_can_update_their_calls_def targeted_def apply_update_def channel_name_def
  callSubscription_def onconnectionstatechange_def onicecandidate_def ontrack_def
  toggleVideo_def toggleAudio_def getVideoTracks_def getAudioTracks_def find_session_def

lemmas cast_defs =
  mounted_def two_users_def granted_def denied_def first_render_def pending_call_def
  one_call_def

lemma alice_calling_state:
  "user alice_calling = Some ''alice''"
  "db alice_calling = one_call"
  "currentCall alice_calling = Some pending_call"
  "incomingCall alice_calling = None"
  "isCallActive alice_calling = False"
  "localStream alice_calling = Some [0, 1]"
  "next_track alice_calling = 2"
  by (simp_all add: alice_calling_def hook_defs cast_defs Let_def)

lemma alice_calling_tracks:
  "tracks alice_calling 0 = \<lparr>kind = audio_track, enabled = True, readyState = live\<rparr>"
  "tracks alice_calling (Suc 0) = \<lparr>kind = video_track, enabled = True, readyState = live\<rparr>"
  by (simp_all add: alice_calling_def hook_defs cast_defs Let_def)

lemma alice_calling_peerConnection:
  "peerConnection alice_calling = Some
     \<lparr>onicecandidate_currentCall = None,
      onconnectionstatechange_endCall = \<lparr>ec_currentCall = None, ec_localStream = None\<rparr>,
      senders = [0, 1], localDescription = Some ''v=0'', remoteDescription = None,
      remoteCandidates = [], connectionState = state_new\<rparr>"
  by (simp add: alice_calling_def hook_defs cast_defs Let_def)

lemma alice_calling_trace:
  "trace alice_calling =
     [store_insert pending_call, get_user_media True True, new_peer_connection,
      add_track 0, add_track 1, set_local_description ''v=0'',
      send ''call:c1'' (call_offer (Some ''v=0'') ''c1'' video)]"
  by (simp add: alice_calling_def hook_defs cast_defs Let_def)

lemma bob_notified_state:
  "user bob_notified = Some ''bob''"
  "db bob_notified = one_call"
  "currentCall bob_notified = Some pending_call"
  "incomingCall bob_notified = Some pending_call"
  "peerConnection bob_notified = None"
  "localStream bob_notified = None"
  "next_track bob_notified = 0"
  "trace bob_notified = []"
  by (simp_all add: bob_notified_def hook_defs cast_defs Let_def)

subsection \<open>What each callback does to the database\<close>

lemma db_log: "db (log es w) = db w"
  by (simp add: log_def)

lemma db_getUserMedia: "db (snd (getUserMedia env v a w)) = db w"
  by (simp add: getUserMedia_def log_def Let_def split: option.splits)

lemma db_initializePeerConnection: "db (initializePeerConnection cl w) = db w"
  by (simp add: initializePeerConnection_def log_def split: option.splits)

lemma db_addTracks: "db (addTracks stream w) = db w"
  by (simp add: addTracks_def log_def split: option.splits)

lemma db_sendOffer: "db (sendOffer env c t w) = db w"
  by (simp add: sendOffer_def log_def split: option.splits)

lemma db_toggleVideo: "db (toggleVideo ls w) = db w"
  by (simp add: toggleVideo_def split: option.splits list.splits)

lemma db_toggleAudio: "db (toggleAudio ls w) = db w"
  by (simp add: toggleAudio_def split: option.splits list.splits)

lemma db_onicecandidate: "db (onicecandidate c w) = db w"
  by (simp add: onicecandidate_def log_def split: option.splits)

lemma db_ontrack: "db (ontrack stream w) = db w"
  by (simp add: ontrack_def split: option.splits)

lemma parties_differ_insert:
  "parties_differ d \<Longrightarrow> insert_into_call_sessions uid r d = Inr d' \<Longrightarrow> parties_differ d'"
  by (auto simp: parties_differ_def insert_into_call_sessions_def split: if_splits)

lemma parties_differ_update:
  "parties_differ d \<Longrightarrow> update_call_sessions uid callId p d = Inr d' \<Longrightarrow> parties_differ d'"
  by (auto simp: parties_differ_def update_call_sessions_def apply_update_def list_all_iff
           split: if_splits)

lemma parties_differ_supabase_update:
  "parties_differ (db w) \<Longrightarrow> parties_differ (db (supabase_update callId p w))"
  by (auto simp: supabase_update_def Let_def db_log
           split: sum.splits dest: parties_differ_update)

lemma parties_differ_startCall:
  "parties_differ (db w) \<Longrightarrow> parties_differ (db (startCall ipc env receiverId callType w))"
proof (cases "user w")
  case None
  assume "parties_differ (db w)"
  with None show ?thesis by (simp add: startCall_def)
next
  case (Some uid)
  assume inv: "parties_differ (db w)"
  let ?row = "\<lparr>id_cs = gen_random_uuid env, caller_id = uid, receiver_id = receiverId,
               call_type = callType, status = pending, started_at = None, ended_at = None\<rparr>"
  show ?thesis
  proof (cases "insert_into_call_sessions (Some uid) ?row (db w)")
    case (Inl e)
    with Some inv show ?thesis by (simp add: startCall_def Let_def db_log)
  next
    case (Inr d)
    from inv Inr have d: "parties_differ d" by (rule parties_differ_insert)
    let ?w1 = "(log [store_insert ?row] w)\<lparr>db := d, currentCall := Some ?row\<rparr>"
    have "db (snd (getUserMedia env (callType = video) True ?w1)) = d"
      by (simp add: db_getUserMedia)
    with Some Inr d show ?thesis
      by (cases "getUserMedia env (callType = video) True ?w1")
         (auto simp: startCall_def Let_def db_log db_sendOffer db_addTracks
                     db_initializePeerConnection split: sum.splits)
  qed
qed

lemma parties_differ_acceptCall:
  "parties_differ (db w) \<Longrightarrow> parties_differ (db (acceptCall cc ipc env callId w))"
proof (cases cc)
  case None
  assume "parties_differ (db w)"
  with None show ?thesis by (simp add: acceptCall_def)
next
  case (Some c)
  assume inv: "parties_differ (db w)"
  let ?p = "\<lparr>set_status = accepted, set_started_at = Some (now env), set_ended_at = None\<rparr>"
  let ?w2 = "(supabase_update callId ?p w)\<lparr>isCallActive := True, incomingCall := None\<rparr>"
  have w2: "parties_differ (db ?w2)"
    using inv by (simp add: parties_differ_supabase_update)
  have "db (snd (getUserMedia env (call_type c = video) True ?w2)) = db ?w2"
    by (rule db_getUserMedia)
  with Some w2 show ?thesis
    by (cases "getUserMedia env (call_type c = video) True ?w2")
       (auto simp: acceptCall_def Let_def db_log db_addTracks db_initializePeerConnection
             split: sum.splits)
qed

lemma parties_differ_rejectCall:
  "parties_differ (db w) \<Longrightarrow> parties_differ (db (rejectCall env callId w))"
  by (simp add: rejectCall_def parties_differ_supabase_update)

lemma db_endCall:
  "db (endCall cl env w) =
     (case ec_currentCall cl of
        None \<Rightarrow> db w
      | Some c \<Rightarrow> db (supabase_update (id_cs c)
                        \<lparr>set_status = ended, set_started_at = None, set_ended_at = Some (now env)\<rparr> w))"
  by (simp add: endCall_def Let_def db_log split: option.splits)

lemma parties_differ_endCall:
  "parties_differ (db w) \<Longrightarrow> parties_differ (db (endCall cl env w))"
  by (simp add: db_endCall parties_differ_supabase_update split: option.splits)

lemma parties_differ_callSubscription:
  "parties_differ (db w) \<Longrightarrow> parties_differ (db (callSubscription cl env ev w))"
  by (cases ev) (auto simp: callSubscription_def Let_def split: option.splits
                      intro: parties_differ_endCall)

lemma parties_differ_onconnectionstatechange:
  "parties_differ (db w) \<Longrightarrow> parties_differ (db (onconnectionstatechange s env w))"
  by (auto simp: onconnectionstatechange_def Let_def split: option.splits
           intro: parties_differ_endCall)

lemma parties_differ_run:
  "parties_differ (db w) \<Longrightarrow> parties_differ (db (run a w))"
  by (cases a)
     (simp_all add: parties_differ_startCall parties_differ_acceptCall parties_differ_rejectCall
        parties_differ_endCall parties_differ_callSubscription
        parties_differ_onconnectionstatechange db_toggleVideo db_toggleAudio
        db_onicecandidate db_ontrack)

lemma parties_differ_fold_run:
  "parties_differ (db w) \<Longrightarrow> parties_differ (db (fold run as w))"
  by (induction as arbitrary: w) (simp_all add: parties_differ_run)

subsection \<open>What each callback does to the peer connection\<close>

lemma callSubscription_broadcast: "callSubscription cl env (broadcast ch m) w = w"
  by (simp add: callSubscription_def split: option.splits)

lemma peerConnection_log: "peerConnection (log es w) = peerConnection w"
  by (simp add: log_def)

lemma peerConnection_getUserMedia:
  "peerConnection (snd (getUserMedia env v a w)) = peerConnection w"
  by (simp add: getUserMedia_def log_def Let_def split: option.splits)

lemma peerConnection_supabase_update:
  "peerConnection (supabase_update callId p w) = peerConnection w"
  by (simp add: supabase_update_def log_def Let_def split: sum.splits)

lemma peerConnection_endCall: "peerConnection (endCall cl env w) = None"
  by (simp add: endCall_def Let_def log_def split: option.splits)

lemma remote_untouched_eq:
  "peerConnection w' = peerConnection w \<Longrightarrow> remote_untouched w' = remote_untouched w"
  by (simp add: remote_untouched_def)

lemma remote_untouched_initializePeerConnection:
  "remote_untouched w \<Longrightarrow> remote_untouched (initializePeerConnection cl w)"
  by (simp add: remote_untouched_def initializePeerConnection_def log_def split: option.splits)

lemma remote_untouched_addTracks:
  "remote_untouched w \<Longrightarrow> remote_untouched (addTracks stream w)"
  by (simp add: remote_untouched_def addTracks_def log_def split: option.splits)

lemma remote_untouched_sendOffer:
  "remote_untouched w \<Longrightarrow> remote_untouched (sendOffer env c t w)"
  by (simp add: remote_untouched_def sendOffer_def log_def split: option.splits)

lemma remote_untouched_endCall: "remote_untouched (endCall cl env w)"
  by (simp add: remote_untouched_def peerConnection_endCall)

lemma remote_untouched_startCall:
  assumes "remote_untouched w"
  shows "remote_untouched (startCall ipc env receiverId callType w)"
proof (cases "user w")
  case None
  with assms show ?thesis by (simp add: startCall_def)
next
  case (Some uid)
  let ?row = "\<lparr>id_cs = gen_random_uuid env, caller_id = uid, receiver_id = receiverId,
               call_type = callType, status = pending, started_at = None, ended_at = None\<rparr>"
  show ?thesis
  proof (cases "insert_into_call_sessions (Some uid) ?row (db w)")
    case (Inl e)
    with Some assms show ?thesis
      by (simp add: startCall_def Let_def remote_untouched_def log_def)
  next
    case (Inr d)
    let ?w1 = "(log [store_insert ?row] w)\<lparr>db := d, currentCall := Some ?row\<rparr>"
    obtain res w2 where g: "getUserMedia env (callType = video) True ?w1 = (res, w2)"
      by (cases "getUserMedia env (callType = video) True ?w1")
    have "peerConnection w2 = peerConnection w"
      using peerConnection_getUserMedia [of env "callType = video" True ?w1] g
      by (simp add: log_def)
    with assms have w2: "remote_untouched w2" by (simp add: remote_untouched_def)
    show ?thesis
    proof (cases res)
      case (Inl e)
      with Some Inr g w2 show ?thesis
        by (simp add: startCall_def Let_def remote_untouched_def log_def)
    next
      case (Inr stream)
      with Some \<open>insert_into_call_sessions (Some uid) ?row (db w) = Inr d\<close> g w2 show ?thesis
        by (simp add: startCall_def Let_def remote_untouched_sendOffer
              remote_untouched_addTracks remote_untouched_initializePeerConnection)
    qed
  qed
qed

lemma remote_untouched_acceptCall:
  assumes "remote_untouched w"
  shows "remote_untouched (acceptCall cc ipc env callId w)"
proof (cases cc)
  case None
  with assms show ?thesis by (simp add: acceptCall_def)
next
  case (Some c)
  let ?p = "\<lparr>set_status = accepted, set_started_at = Some (now env), set_ended_at = None\<rparr>"
  let ?w2 = "(supabase_update callId ?p w)\<lparr>isCallActive := True, incomingCall := None\<rparr>"
  obtain res w3 where g: "getUserMedia env (call_type c = video) True ?w2 = (res, w3)"
    by (cases "getUserMedia env (call_type c = video) True ?w2")
  have "peerConnection w3 = peerConnection w"
    using peerConnection_getUserMedia [of env "call_type c = video" True ?w2] g
    by (simp add: peerConnection_supabase_update)
  with assms have w3: "remote_untouched w3" by (simp add: remote_untouched_def)
  show ?thesis
  proof (cases res)
    case (Inl e)
    with Some g w3 show ?thesis
      by (simp add: acceptCall_def Let_def remote_untouched_def log_def)
  next
    case (Inr stream)
    with Some g w3 show ?thesis
      by (simp add: acceptCall_def Let_def remote_untouched_addTracks
            remote_untouched_initializePeerConnection)
  qed
qed

lemma remote_untouched_run:
  assumes "remote_untouched w"
  shows "remote_untouched (run a w)"
proof (cases a)
  case (StartCall ipc env receiverId callType)
  with assms show ?thesis by (simp add: remote_untouched_startCall)
next
  case (AcceptCall cc ipc env callId)
  with assms show ?thesis by (simp add: remote_untouched_acceptCall)
next
  case (RejectCall env callId)
  with assms show ?thesis
    by (simp add: rejectCall_def remote_untouched_def peerConnection_supabase_update)
next
  case (EndCall cl env)
  then show ?thesis by (simp add: remote_untouched_endCall)
next
  case (ToggleVideo ls)
  with assms show ?thesis
    by (simp add: remote_untouched_def toggleVideo_def split: option.splits list.splits)
next
  case (ToggleAudio ls)
  with assms show ?thesis
    by (simp add: remote_untouched_def toggleAudio_def split: option.splits list.splits)
next
  case (CallEvent cl env ev)
  with assms show ?thesis
    by (cases ev)
       (simp_all add: callSubscription_def Let_def remote_untouched_endCall
          remote_untouched_def [of "w\<lparr>incomingCall := _, currentCall := _\<rparr>"]
          remote_untouched_def [of "w\<lparr>currentCall := _\<rparr>"]
          remote_untouched_def [of w] split: option.splits)
next
  case (IceCandidateEvent c)
  have "peerConnection (onicecandidate c w) = peerConnection w"
    by (auto simp: onicecandidate_def log_def split: option.splits)
  with assms IceCandidateEvent show ?thesis by (simp add: remote_untouched_def)
next
  case (TrackEvent stream)
  with assms show ?thesis
    by (simp add: remote_untouched_def ontrack_def split: option.splits)
next
  case (ConnectionStateChange st env)
  with assms show ?thesis
    by (auto simp: onconnectionstatechange_def Let_def remote_untouched_endCall
          remote_untouched_def [of "w\<lparr>peerConnection := _\<rparr>"]
          remote_untouched_def [of w] split: option.splits)
qed

lemma remote_untouched_fold_run:
  "remote_untouched w \<Longrightarrow> remote_untouched (fold run as w)"
  by (induction as arbitrary: w) (simp_all add: remote_untouched_run)

lemma bob_accepted_trace:
  "trace bob_accepted =
     [store_update ''c1''
        \<lparr>set_status = accepted, set_started_at = Some 7, set_ended_at = None\<rparr>,
      get_user_media True True, new_peer_connection, add_track 0, add_track 1]"
  by (simp add: bob_accepted_def acceptCall_def bob_notified_state getUserMedia_def
        initializePeerConnection_def addTracks_def supabase_update_def log_def Let_def
        render_initializePeerConnection_def granted_def pending_call_def
        split: sum.splits)

lemma bob_accepted_peerConnection:
  "peerConnection bob_accepted = Some
     \<lparr>onicecandidate_currentCall = Some pending_call,
      onconnectionstatechange_endCall =
        \<lparr>ec_currentCall = Some pending_call, ec_localStream = None\<rparr>,
      senders = [0, 1], localDescription = None, remoteDescription = None,
      remoteCandidates = [], connectionState = state_new\<rparr>"
  by (simp add: bob_accepted_def acceptCall_def bob_notified_state getUserMedia_def
        initializePeerConnection_def addTracks_def supabase_update_def log_def Let_def
        render_initializePeerConnection_def granted_def pending_call_def
        split: sum.splits)

subsection \<open>What an update does to the row\<close>

lemma id_cs_apply_update: "id_cs (apply_update p r) = id_cs r"
  by (simp add: apply_update_def)

lemma find_map_update:
  assumes "find (\<lambda>r. id_cs r = callId) rows = Some r"
    and "users_can_update_their_calls uid r"
  shows "find (\<lambda>r. id_cs r = callId)
           (map (\<lambda>r. if targeted uid callId r then apply_update p r else r) rows)
         = Some (apply_update p r)"
  using assms
proof (induction rows)
  case Nil
  then show ?case by simp
next
  case (Cons x xs)
  show ?case
  proof (cases "id_cs x = callId")
    case True
    with Cons.prems have "x = r" by simp
    with True Cons.prems(2) show ?thesis
      by (simp add: targeted_def id_cs_apply_update)
  next
    case False
    with Cons show ?thesis by (simp add: targeted_def)
  qed
qed

lemma update_succeeds:
  "parties_differ d \<Longrightarrow>
   update_call_sessions uid callId p d =
     Inr (d\<lparr>call_sessions :=
              map (\<lambda>r. if targeted uid callId r then apply_update p r else r) (call_sessions d)\<rparr>)"
  by (auto simp: update_call_sessions_def parties_differ_def list_all_iff list_ex_iff)

lemma find_session_supabase_update:
  assumes "parties_differ (db w)"
    and "find_session callId (db w) = Some r"
    and "users_can_update_their_calls (user w) r"
  shows "find_session callId (db (supabase_update callId p w)) = Some (apply_update p r)"
  using assms
  by (simp add: supabase_update_def Let_def update_succeeds log_def find_session_def
        find_map_update)

lemma bob_hung_up_db:
  "db bob_hung_up =
     two_users\<lparr>call_sessions :=
       [pending_call\<lparr>status := ended, started_at := Some 7, ended_at := Some 7\<rparr>]\<rparr>"
  by (simp add: bob_hung_up_def bob_accepted_def bob_notified_state hook_defs
        render_endCall_def render_initializePeerConnection_def Let_def cast_defs)

subsection \<open>What \<open>endCall\<close> leaves\<close>

lemma endCall_state:
  "peerConnection (endCall cl env w) = None"
  "localStream (endCall cl env w) = None"
  "remoteStream (endCall cl env w) = None"
  "isCallActive (endCall cl env w) = False"
  "currentCall (endCall cl env w) = None"
  "incomingCall (endCall cl env w) = None"
  by (simp_all add: endCall_def Let_def log_def split: option.splits)

lemma endCall_nothing_to_do:
  assumes "peerConnection w = None" "localStream w = None" "remoteStream w = None"
    "\<not> isCallActive w" "currentCall w = None" "incomingCall w = None"
  shows "endCall \<lparr>ec_currentCall = None, ec_localStream = None\<rparr> env w = w"
  using assms by (cases w) (simp add: endCall_def)

lemma trace_supabase_update:
  "trace (supabase_update callId p w) = trace w @ [store_update callId p]"
  by (simp add: supabase_update_def log_def Let_def split: sum.splits)

lemma trace_endCall:
  "trace (endCall cl env w) =
     trace w
     @ (case ec_currentCall cl of
          None \<Rightarrow> []
        | Some c \<Rightarrow> [store_update (id_cs c)
                      \<lparr>set_status = ended, set_started_at = None, set_ended_at = Some (now env)\<rparr>])
     @ (case peerConnection w of None \<Rightarrow> [] | Some pc \<Rightarrow> [close_peer_connection])
     @ (case ec_localStream cl of None \<Rightarrow> [] | Some stream \<Rightarrow> map stop_track stream)"
  by (simp add: endCall_def Let_def log_def trace_supabase_update
        peerConnection_supabase_update split: option.splits)

lemma tracks_supabase_update: "tracks (supabase_update callId p w) = tracks w"
  by (simp add: supabase_update_def log_def Let_def split: sum.splits)

lemma tracks_endCall:
  "tracks (endCall cl env w) =
     (case ec_localStream cl of None \<Rightarrow> tracks w | Some stream \<Rightarrow> stop_tracks stream (tracks w))"
  by (simp add: endCall_def Let_def log_def tracks_supabase_update split: option.splits)

subsection \<open>The renders\<close>



lemma render_endCall_endCall:
  "render_endCall (endCall cl env w) = \<lparr>ec_currentCall = None, ec_localStream = None\<rparr>"
  by (simp add: render_endCall_def endCall_state)

lemma settle_unchanged:
  "render_endCall (hook_world h) = last_render h \<Longrightarrow> settle env h = h"
  by (simp add: settle_def render_def Let_def)

lemma hook_world_settle:
  assumes "render_endCall (hook_world h) \<noteq> last_render h"
  shows "hook_world (settle env h) =
           (if render_endCall (hook_world h) = \<lparr>ec_currentCall = None, ec_localStream = None\<rparr>
            then endCall (last_render h) env (hook_world h)
            else endCall (render_endCall (hook_world h)) env
                   (endCall (last_render h) env (hook_world h)))"
  using assms by (simp add: settle_def render_def Let_def render_endCall_endCall)

lemma last_render_settle:
  assumes "render_endCall (hook_world h) \<noteq> last_render h"
  shows "last_render (settle env h) = \<lparr>ec_currentCall = None, ec_localStream = None\<rparr>"
  using assms by (simp add: settle_def render_def Let_def render_endCall_endCall)

lemma at_rest_settle:
  assumes "render_endCall (hook_world h) \<noteq> last_render h"
  shows "at_rest (settle env h)"
  using assms
  by (simp add: at_rest_def last_render_settle hook_world_settle endCall_state)

text \<open>A third render changes nothing: two are all the renders there are.\<close>

lemma render_settle: "render env' (settle env h) = settle env h"
proof (cases "render_endCall (hook_world h) = last_render h")
  case True
  then show ?thesis by (simp add: settle_unchanged render_def Let_def)
next
  case False
  then have "at_rest (settle env h)" by (rule at_rest_settle)
  then show ?thesis by (simp add: at_rest_def render_def Let_def render_endCall_def)
qed

lemma currentCall_startCall:
  assumes "user w = Some uid"
    and "insert_into_call_sessions (Some uid)
           \<lparr>id_cs = gen_random_uuid env, caller_id = uid, receiver_id = receiverId,
            call_type = callType, status = pending, started_at = None, ended_at = None\<rparr>
           (db w) = Inr d"
  shows "currentCall (startCall ipc env receiverId callType w) \<noteq> None"
  using assms
  by (simp add: startCall_def getUserMedia_def initializePeerConnection_def addTracks_def
        sendOffer_def log_def Let_def split: option.splits)

text \<open>
  An event that leaves no current call leaves no connection in the ref either, when the
  hook was at rest.
\<close>

lemma no_call_no_connection:
  assumes "at_rest h"
    and "currentCall (run (in_last_render env e h) (hook_world h)) = None"
  shows "peerConnection (run (in_last_render env e h) (hook_world h)) = None"
proof (cases e)
  case (call_startCall receiverId callType)
  show ?thesis
  proof (cases "user (hook_world h)")
    case None
    with assms call_startCall show ?thesis by (simp add: startCall_def at_rest_def)
  next
    case (Some uid)
    let ?row = "\<lparr>id_cs = gen_random_uuid env, caller_id = uid, receiver_id = receiverId,
                 call_type = callType, status = pending, started_at = None, ended_at = None\<rparr>"
    show ?thesis
    proof (cases "insert_into_call_sessions (Some uid) ?row (db (hook_world h))")
      case (Inl err)
      with Some assms(1) call_startCall show ?thesis
        by (simp add: startCall_def Let_def log_def at_rest_def)
    next
      case (Inr d)
      with Some assms(2) call_startCall show ?thesis
        using currentCall_startCall [of "hook_world h" uid env receiverId callType d]
        by simp
    qed
  qed
next
  case (call_acceptCall callId)
  with assms(1) show ?thesis by (simp add: acceptCall_def at_rest_def)
next
  case (call_rejectCall callId)
  with assms(1) show ?thesis
    by (simp add: rejectCall_def peerConnection_supabase_update at_rest_def)
next
  case call_endCall
  then show ?thesis by (simp add: endCall_state)
next
  case call_toggleVideo
  with assms(1) show ?thesis by (simp add: toggleVideo_def at_rest_def)
next
  case call_toggleAudio
  with assms(1) show ?thesis by (simp add: toggleAudio_def at_rest_def)
next
  case (realtime ev)
  with assms(1) show ?thesis
    by (cases ev) (simp_all add: callSubscription_def at_rest_def split: option.splits)
next
  case (icecandidate c)
  with assms(1) show ?thesis by (simp add: onicecandidate_def at_rest_def)
next
  case (track stream)
  with assms(1) show ?thesis by (simp add: ontrack_def at_rest_def)
next
  case (connectionstatechange st)
  with assms(1) show ?thesis by (simp add: onconnectionstatechange_def at_rest_def)
qed

text \<open>
  The mounted hook is at rest, and every event leaves a hook at rest at rest: once React
  has rendered, the hook holds no call, no stream and no connection, whatever reached
  it. The closures of the last render are then those of a hook without a call.
\<close>

lemma at_rest_mount: "at_rest (mount u d)"
  by (simp add: at_rest_def mount_def mounted_def)

lemma at_rest_step:
  assumes "at_rest h"
  shows "at_rest (step env e h)"
proof -
  let ?w = "run (in_last_render env e h) (hook_world h)"
  let ?h = "h\<lparr>hook_world := ?w\<rparr>"
  show ?thesis
  proof (cases "render_endCall (hook_world ?h) = last_render ?h")
    case True
    then have s: "settle env ?h = ?h" by (rule settle_unchanged)
    from True assms have c: "currentCall ?w = None" and l: "localStream ?w = None"
      by (simp_all add: at_rest_def render_endCall_def)
    from assms c have "peerConnection ?w = None" by (rule no_call_no_connection)
    with assms c l show ?thesis by (simp add: step_def s at_rest_def)
  next
    case False
    then show ?thesis unfolding step_def by (rule at_rest_settle)
  qed
qed

lemma at_rest_fold_step: "at_rest h \<Longrightarrow> at_rest (fold (step env) es h)"
  by (induction es arbitrary: h) (simp_all add: at_rest_step)

text \<open>The two invariants of the worlds hold through the renders as well.\<close>

lemma parties_differ_settle:
  assumes "parties_differ (db (hook_world h))"
  shows "parties_differ (db (hook_world (settle env h)))"
proof (cases "render_endCall (hook_world h) = last_render h")
  case True
  with assms show ?thesis by (simp add: settle_unchanged)
next
  case False
  from assms show ?thesis
    by (simp add: hook_world_settle [OF False] parties_differ_endCall)
qed

lemma parties_differ_step:
  "parties_differ (db (hook_world h)) \<Longrightarrow> parties_differ (db (hook_world (step env e h)))"
  by (simp add: step_def parties_differ_settle parties_differ_run)

lemma remote_untouched_step:
  assumes "remote_untouched (hook_world h)"
  shows "remote_untouched (hook_world (step env e h))"
proof -
  let ?h = "h\<lparr>hook_world := run (in_last_render env e h) (hook_world h)\<rparr>"
  show ?thesis
  proof (cases "render_endCall (hook_world ?h) = last_render ?h")
    case True
    with assms show ?thesis by (simp add: step_def settle_unchanged remote_untouched_run)
  next
    case False
    show ?thesis
      unfolding step_def by (simp add: hook_world_settle [OF False] remote_untouched_endCall)
  qed
qed

text \<open>
  At rest the ref holds no connection, so no event of a connection has a handler to
  run; and \<open>acceptCall\<close>, in the closures of a hook at rest, holds no call.
\<close>

lemma connectionstatechange_at_rest:
  "at_rest h \<Longrightarrow> step env (connectionstatechange st) h = h"
  by (simp add: step_def onconnectionstatechange_def at_rest_def settle_unchanged
        render_endCall_def)


subsection \<open>The table after a callback\<close>

lemma db_supabase_update:
  "parties_differ (db w) \<Longrightarrow>
   db (supabase_update callId p w) =
     (db w)\<lparr>call_sessions :=
        map (\<lambda>x. if targeted (user w) callId x then apply_update p x else x)
          (call_sessions (db w))\<rparr>"
  by (simp add: supabase_update_def Let_def update_succeeds log_def)

lemma db_acceptCall:
  "db (acceptCall (Some c) ipc env callId w) =
     db (supabase_update callId
           \<lparr>set_status = accepted, set_started_at = Some (now env), set_ended_at = None\<rparr> w)"
proof -
  let ?p = "\<lparr>set_status = accepted, set_started_at = Some (now env), set_ended_at = None\<rparr>"
  let ?w2 = "(supabase_update callId ?p w)\<lparr>isCallActive := True, incomingCall := None\<rparr>"
  show ?thesis
    using db_getUserMedia [of env "call_type c = video" True ?w2]
    by (cases "getUserMedia env (call_type c = video) True ?w2")
       (auto simp: acceptCall_def Let_def db_log db_addTracks db_initializePeerConnection
             split: sum.splits)
qed



lemmas render_defs = step_def settle_def render_def mount_def render_endCall_def

lemma alice_hook_db:
  "db (hook_world alice_hook) =
     two_users\<lparr>call_sessions := [pending_call\<lparr>status := ended, ended_at := Some 7\<rparr>]\<rparr>"
  by (simp add: alice_hook_def render_defs hook_defs Let_def cast_defs)

lemma bob_hook_db:
  "db (hook_world bob_hook) =
     two_users\<lparr>call_sessions := [pending_call\<lparr>status := ended, ended_at := Some 9\<rparr>]\<rparr>"
  by (simp add: bob_hook_def alice_hook_db render_defs hook_defs Let_def late_def cast_defs)

subsection \<open>The claims\<close>

text \<open>
  C1, as the claim states it, fails. Bob, notified of Alice's call, accepts it with the
  devices granted, and the offer then reaches his client on the channel of the call.
  The delivery changes nothing; his peer connection has his two tracks and neither a
  remote nor a local description; the trace has the update of the row, the request for
  the devices, the new connection and the two tracks, and nothing sent.
\<close>

theorem answerer_path_counterexample:
  "bob_offered = bob_accepted \<and>
   peerConnection bob_offered = Some
     \<lparr>onicecandidate_currentCall = Some pending_call,
      onconnectionstatechange_endCall =
        \<lparr>ec_currentCall = Some pending_call, ec_localStream = None\<rparr>,
      senders = [0, 1], localDescription = None, remoteDescription = None,
      remoteCandidates = [], connectionState = state_new\<rparr> \<and>
   trace bob_offered =
     [store_update ''c1''
        \<lparr>set_status = accepted, set_started_at = Some 7, set_ended_at = None\<rparr>,
      get_user_media True True, new_peer_connection, add_track 0, add_track 1]"
  by (simp add: bob_offered_def callSubscription_broadcast bob_accepted_peerConnection
        bob_accepted_trace)

text \<open>
  C1, amended. When the receiver accepts a call (\<open>acceptCall\<close> in a closure that holds
  a current call) and the devices are granted, the hook sends the update of the row to
  \<open>accepted\<close> with \<open>started_at\<close>, marks the call active, clears the incoming call,
  acquires local media (audio always, video for a video call), creates the peer
  connection unless the ref holds one, and adds the local tracks to it. That is all:
  the remote and the local description of the connection are what they were (none, on
  a new connection), the trace gains the update, the request for the devices, the new
  connection and the added tracks, so no answer is created and nothing is sent on the
  signaling transport; and an offer delivered to the hook reaches no handler.
\<close>

theorem acceptCall_acquires_media_only:
  assumes "permission env = None"
  shows
  "(let w' = acceptCall (Some c) ipc env callId w;
        stream = [next_track w ..< next_track w + (if call_type c = video then 2 else 1)];
        p = \<lparr>set_status = accepted, set_started_at = Some (now env), set_ended_at = None\<rparr>
    in db w' = db (supabase_update callId p w) \<and>
       isCallActive w' \<and> incomingCall w' = None \<and> currentCall w' = currentCall w \<and>
       localStream w' = Some stream \<and>
       map_option senders (peerConnection w') =
         Some ((case peerConnection w of None \<Rightarrow> [] | Some pc \<Rightarrow> senders pc) @ stream) \<and>
       map_option remoteDescription (peerConnection w') =
         Some (case peerConnection w of None \<Rightarrow> None | Some pc \<Rightarrow> remoteDescription pc) \<and>
       map_option localDescription (peerConnection w') =
         Some (case peerConnection w of None \<Rightarrow> None | Some pc \<Rightarrow> localDescription pc) \<and>
       trace w' = trace w @ [store_update callId p, get_user_media (call_type c = video) True]
                    @ (case peerConnection w of None \<Rightarrow> [new_peer_connection] | Some pc \<Rightarrow> [])
                    @ map add_track stream) \<and>
   callSubscription cl env' (broadcast ch (call_offer offer callId' callType)) w0 = w0"
proof -
  let ?p = "\<lparr>set_status = accepted, set_started_at = Some (now env), set_ended_at = None\<rparr>"
  let ?w2 = "(supabase_update callId ?p w)\<lparr>isCallActive := True, incomingCall := None\<rparr>"
  have pc: "peerConnection ?w2 = peerConnection w"
    by (simp add: peerConnection_supabase_update)
  have tr: "trace ?w2 = trace w @ [store_update callId ?p]"
    by (simp add: supabase_update_def log_def Let_def split: sum.splits)
  have nt: "next_track ?w2 = next_track w" and cc: "currentCall ?w2 = currentCall w"
    by (simp_all add: supabase_update_def log_def Let_def split: sum.splits)
  have a: "acceptCall (Some c) ipc env callId w =
             (case getUserMedia env (call_type c = video) True ?w2 of
                (Inl error, w3) \<Rightarrow> log [console_error ''Error accepting call:''] w3
              | (Inr stream, w3) \<Rightarrow> addTracks stream (initializePeerConnection ipc w3))"
    by (simp add: acceptCall_def Let_def)
  show ?thesis
  proof (cases "peerConnection w")
    case None
    with assms pc tr nt cc show ?thesis
      by (simp add: a getUserMedia_def initializePeerConnection_def addTracks_def log_def
            Let_def callSubscription_broadcast)
  next
    case (Some pc0)
    with assms pc tr nt cc show ?thesis
      by (simp add: a getUserMedia_def initializePeerConnection_def addTracks_def log_def
            Let_def callSubscription_broadcast)
  qed
qed

text \<open>Bob's acceptance of Alice's video call, and the offer delivered to him before it.\<close>

theorem acceptCall_acquires_media_only_witness:
  "permission granted = None \<and>
   localStream bob_accepted = Some [0, 1] \<and>
   isCallActive bob_accepted \<and> incomingCall bob_accepted = None \<and>
   map_option senders (peerConnection bob_accepted) = Some [0, 1] \<and>
   map_option remoteDescription (peerConnection bob_accepted) = Some None \<and>
   map_option localDescription (peerConnection bob_accepted) = Some None \<and>
   callSubscription (render_endCall bob_notified) granted
     (broadcast ''call:c1'' (call_offer (Some ''v=0'') ''c1'' video)) bob_notified = bob_notified"
proof -
  have g: "permission granted = None" by (simp add: granted_def)
  have up: "[0 ..< Suc (Suc 0)] = [0, Suc 0]" by (simp add: upt_rec)
  note t = acceptCall_acquires_media_only [OF g,
    where c = pending_call and ipc = "render_initializePeerConnection None bob_notified"
      and callId = "''c1''" and w = bob_notified and cl = "render_endCall bob_notified"
      and env' = granted and ch = "''call:c1''" and offer = "Some ''v=0''" and callId' = "''c1''"
      and callType = video and ?w0.0 = bob_notified]
  note t' = t [folded bob_accepted_def]
  from g t' show ?thesis
    by (simp add: Let_def bob_notified_state pending_call_def up)
qed

text \<open>
  C2, as the claim states it, fails. Bob has accepted and his peer connection has no
  remote description; a candidate of Alice reaches his client on the channel of the
  call. The world after the delivery is the world before it: the candidate is neither
  applied nor kept anywhere.
\<close>

theorem candidate_before_description_counterexample:
  "map_option remoteDescription (peerConnection bob_accepted) = Some None \<and>
   bob_with_candidate = bob_accepted \<and>
   map_option remoteCandidates (peerConnection bob_with_candidate) = Some []"
  by (simp add: bob_with_candidate_def callSubscription_broadcast bob_accepted_peerConnection)

text \<open>
  C2, amended. A remote candidate that reaches the hook is dropped: the subscription
  has no handler for a broadcast, so the delivery leaves the world as it is and nothing
  is buffered; and no callback or handler of the hook, in whatever closure, sets a
  remote description or applies a remote candidate: a peer connection whose remote side
  is untouched stays so through every sequence of them, from the mounted hook on.
\<close>

theorem remote_candidates_are_dropped:
  "callSubscription cl env (broadcast ch (ice_candidate c callId)) w = w \<and>
   remote_untouched (mounted u d) \<and>
   (remote_untouched w \<longrightarrow> remote_untouched (fold run as w))"
proof (intro conjI impI)
  show "callSubscription cl env (broadcast ch (ice_candidate c callId)) w = w"
    by (rule callSubscription_broadcast)
  show "remote_untouched (mounted u d)"
    by (simp add: remote_untouched_def mounted_def)
  show "remote_untouched (fold run as w)" if "remote_untouched w"
    using that by (rule remote_untouched_fold_run)
qed

theorem remote_candidates_are_dropped_witness:
  "remote_untouched bob_accepted \<and>
   remote_untouched (fold run
      [CallEvent (render_endCall bob_accepted) granted
         (broadcast ''call:c1'' (ice_candidate ''candidate:1'' ''c1'')),
       IceCandidateEvent (Some ''candidate:2''),
       ConnectionStateChange state_connected granted] bob_accepted)"
proof -
  have r: "remote_untouched bob_accepted"
    by (simp add: remote_untouched_def bob_accepted_peerConnection)
  from r remote_candidates_are_dropped
    [where w = bob_accepted and as = "[CallEvent (render_endCall bob_accepted) granted
         (broadcast ''call:c1'' (ice_candidate ''candidate:1'' ''c1'')),
       IceCandidateEvent (Some ''candidate:2''),
       ConnectionStateChange state_connected granted]"]
  show ?thesis by blast
qed

text \<open>
  C3, as the claim states it, fails. Alice calls Bob and her hook settles: the cleanup
  of the render that followed \<open>setCurrentCall\<close> has run \<open>endCall\<close>, and the row is
  \<open>ended\<close>, ended at 7. The insert of the row then reaches Bob's hook, which settles
  the same way: the cleanup on his side sends the update again, and the row, terminal
  since 7, is ended at 9. No user has done anything but start the call.
\<close>

theorem terminal_record_counterexample:
  "find_session ''c1'' (db (hook_world alice_hook)) =
     Some (pending_call\<lparr>status := ended, ended_at := Some 7\<rparr>) \<and>
   find_session ''c1'' (db (hook_world bob_hook)) =
     Some (pending_call\<lparr>status := ended, ended_at := Some 9\<rparr>)"
  by (simp add: alice_hook_db bob_hook_db find_session_def cast_defs)

text \<open>
  C3, amended. Neither the schema nor the hook checks a transition: an update sent by
  the caller or the receiver of a row sets the status and the timestamp of its payload
  whatever the status of the row was, so a record is not immutable once terminal. The
  hook sends three updates, each to the rows of the id it holds that the user may
  update, and to no other row, without reading the row first: \<open>acceptCall\<close> writes
  \<open>accepted\<close> and \<open>started_at\<close>, \<open>rejectCall\<close> writes \<open>rejected\<close> and
  \<open>ended_at\<close>, \<open>endCall\<close> writes \<open>ended\<close> and \<open>ended_at\<close> when its closure
  holds a current call and writes nothing when it holds none. The id, the parties and
  the type of a row are never written, and neither are \<open>users\<close> and \<open>blocks\<close>.
\<close>

theorem status_updates_are_unconditional:
  assumes "parties_differ (db w)"
  shows
  "db (acceptCall (Some c) ipc env callId w) =
     (db w)\<lparr>call_sessions :=
        map (\<lambda>x. if id_cs x = callId \<and> users_can_update_their_calls (user w) x
                 then x\<lparr>status := accepted, started_at := Some (now env)\<rparr> else x)
          (call_sessions (db w))\<rparr> \<and>
   db (rejectCall env callId w) =
     (db w)\<lparr>call_sessions :=
        map (\<lambda>x. if id_cs x = callId \<and> users_can_update_their_calls (user w) x
                 then x\<lparr>status := rejected, ended_at := Some (now env)\<rparr> else x)
          (call_sessions (db w))\<rparr> \<and>
   db (endCall \<lparr>ec_currentCall = Some c, ec_localStream = ls\<rparr> env w) =
     (db w)\<lparr>call_sessions :=
        map (\<lambda>x. if id_cs x = id_cs c \<and> users_can_update_their_calls (user w) x
                 then x\<lparr>status := ended, ended_at := Some (now env)\<rparr> else x)
          (call_sessions (db w))\<rparr> \<and>
   db (endCall \<lparr>ec_currentCall = None, ec_localStream = ls\<rparr> env w) = db w \<and>
   (find_session callId (db w) = Some r \<and> users_can_update_their_calls (user w) r \<longrightarrow>
      find_session callId (db (acceptCall (Some c) ipc env callId w)) =
        Some (r\<lparr>status := accepted, started_at := Some (now env)\<rparr>) \<and>
      find_session callId (db (rejectCall env callId w)) =
        Some (r\<lparr>status := rejected, ended_at := Some (now env)\<rparr>) \<and>
      (id_cs c = callId \<longrightarrow>
       find_session callId (db (endCall \<lparr>ec_currentCall = Some c, ec_localStream = ls\<rparr> env w)) =
         Some (r\<lparr>status := ended, ended_at := Some (now env)\<rparr>)))"
proof (intro conjI impI)
  from assms show "db (acceptCall (Some c) ipc env callId w) =
     (db w)\<lparr>call_sessions :=
        map (\<lambda>x. if id_cs x = callId \<and> users_can_update_their_calls (user w) x
                 then x\<lparr>status := accepted, started_at := Some (now env)\<rparr> else x)
          (call_sessions (db w))\<rparr>"
    by (simp add: db_acceptCall db_supabase_update targeted_def apply_update_def)
next
  from assms show "db (rejectCall env callId w) =
     (db w)\<lparr>call_sessions :=
        map (\<lambda>x. if id_cs x = callId \<and> users_can_update_their_calls (user w) x
                 then x\<lparr>status := rejected, ended_at := Some (now env)\<rparr> else x)
          (call_sessions (db w))\<rparr>"
    by (simp add: rejectCall_def db_supabase_update targeted_def apply_update_def)
next
  from assms show "db (endCall \<lparr>ec_currentCall = Some c, ec_localStream = ls\<rparr> env w) =
     (db w)\<lparr>call_sessions :=
        map (\<lambda>x. if id_cs x = id_cs c \<and> users_can_update_their_calls (user w) x
                 then x\<lparr>status := ended, ended_at := Some (now env)\<rparr> else x)
          (call_sessions (db w))\<rparr>"
    by (simp add: db_endCall db_supabase_update targeted_def apply_update_def)
next
  show "db (endCall \<lparr>ec_currentCall = None, ec_localStream = ls\<rparr> env w) = db w"
    by (simp add: db_endCall)
next
  assume "find_session callId (db w) = Some r \<and> users_can_update_their_calls (user w) r"
  with assms show "find_session callId (db (acceptCall (Some c) ipc env callId w)) =
      Some (r\<lparr>status := accepted, started_at := Some (now env)\<rparr>)"
    by (simp add: db_acceptCall find_session_supabase_update apply_update_def)
next
  assume "find_session callId (db w) = Some r \<and> users_can_update_their_calls (user w) r"
  with assms show "find_session callId (db (rejectCall env callId w)) =
      Some (r\<lparr>status := rejected, ended_at := Some (now env)\<rparr>)"
    by (simp add: rejectCall_def find_session_supabase_update apply_update_def)
next
  assume "find_session callId (db w) = Some r \<and> users_can_update_their_calls (user w) r"
    and "id_cs c = callId"
  with assms show
    "find_session callId (db (endCall \<lparr>ec_currentCall = Some c, ec_localStream = ls\<rparr> env w)) =
       Some (r\<lparr>status := ended, ended_at := Some (now env)\<rparr>)"
    by (simp add: db_endCall find_session_supabase_update apply_update_def)
qed

text \<open>
  The cleanup on Bob's side, on the table Alice's hook has left: \<open>endCall\<close> in the
  closure that holds her call, run at 9 on the row ended at 7. The row is ended at 9 and
  the table has no other change.
\<close>

theorem status_updates_are_unconditional_witness:
  "parties_differ (db (hook_world alice_hook)) \<and>
   find_session ''c1'' (db (hook_world alice_hook)) =
     Some (pending_call\<lparr>status := ended, ended_at := Some 7\<rparr>) \<and>
   users_can_update_their_calls (Some ''bob'')
     (pending_call\<lparr>status := ended, ended_at := Some 7\<rparr>) \<and>
   id_cs pending_call = ''c1'' \<and>
   db (endCall \<lparr>ec_currentCall = Some pending_call, ec_localStream = None\<rparr> late
         (mounted (Some ''bob'') (db (hook_world alice_hook)))) =
     two_users\<lparr>call_sessions := [pending_call\<lparr>status := ended, ended_at := Some 9\<rparr>]\<rparr> \<and>
   find_session ''c1''
     (db (endCall \<lparr>ec_currentCall = Some pending_call, ec_localStream = None\<rparr> late
            (mounted (Some ''bob'') (db (hook_world alice_hook))))) =
     Some (pending_call\<lparr>status := ended, ended_at := Some 9\<rparr>)"
proof -
  let ?w = "mounted (Some ''bob'') (db (hook_world alice_hook))"
  let ?r = "pending_call\<lparr>status := ended, ended_at := Some 7\<rparr>"
  have d: "db ?w = db (hook_world alice_hook)" and u: "user ?w = Some ''bob''"
    by (simp_all add: mounted_def)
  have h1: "parties_differ (db ?w)"
    by (simp add: d alice_hook_db parties_differ_def cast_defs)
  have h2: "find_session ''c1'' (db ?w) = Some ?r \<and> users_can_update_their_calls (user ?w) ?r"
    by (simp add: d u alice_hook_db find_session_def users_can_update_their_calls_def cast_defs)
  have i: "id_cs pending_call = ''c1''" by (simp add: pending_call_def)
  note t = status_updates_are_unconditional [OF h1,
    where c = pending_call and env = late and ls = None and callId = "''c1''" and r = ?r]
  from t have a: "db (endCall \<lparr>ec_currentCall = Some pending_call, ec_localStream = None\<rparr> late ?w) =
     (db ?w)\<lparr>call_sessions :=
        map (\<lambda>x. if id_cs x = id_cs pending_call \<and> users_can_update_their_calls (user ?w) x
                 then x\<lparr>status := ended, ended_at := Some (now late)\<rparr> else x)
          (call_sessions (db ?w))\<rparr>" by blast
  from t h2 i have b: "find_session ''c1''
     (db (endCall \<lparr>ec_currentCall = Some pending_call, ec_localStream = None\<rparr> late ?w)) =
     Some (?r\<lparr>status := ended, ended_at := Some (now late)\<rparr>)" by blast
  have a': "db (endCall \<lparr>ec_currentCall = Some pending_call, ec_localStream = None\<rparr> late ?w) =
     two_users\<lparr>call_sessions := [pending_call\<lparr>status := ended, ended_at := Some 9\<rparr>]\<rparr>"
    unfolding a
    by (simp add: d u alice_hook_db users_can_update_their_calls_def late_def cast_defs)
  have b': "find_session ''c1''
     (db (endCall \<lparr>ec_currentCall = Some pending_call, ec_localStream = None\<rparr> late ?w)) =
     Some (pending_call\<lparr>status := ended, ended_at := Some 9\<rparr>)"
    unfolding b by (simp add: late_def granted_def)
  from h1 h2 i a' b' d u show ?thesis by simp
qed



text \<open>
  C5, as the claim states it, fails. The last thing Alice's \<open>startCall\<close> does is to
  broadcast the offer on the channel \<open>call:c1\<close>. Bob's hook, before and after the
  insert of the row has reached it, is subscribed to \<open>call_events\<close> and to nothing
  else, and the offer delivered to it changes nothing.
\<close>

theorem offer_channel_counterexample:
  "last (trace alice_calling) = send ''call:c1'' (call_offer (Some ''v=0'') ''c1'' video) \<and>
   subscribed_channels (mounted (Some ''bob'') one_call) = [''call_events''] \<and>
   subscribed_channels bob_notified = [''call_events''] \<and>
   ''call:c1'' \<notin> set (subscribed_channels bob_notified) \<and>
   callSubscription (render_endCall bob_notified) granted
     (broadcast ''call:c1'' (call_offer (Some ''v=0'') ''c1'' video)) bob_notified = bob_notified"
  by (simp add: alice_calling_trace subscribed_channels_def bob_notified_state mounted_def
        callSubscription_broadcast)

text \<open>
  C5, amended. A \<open>startCall\<close> that goes through ends by broadcasting the offer on the
  channel of the call, \<open>call:\<close> followed by the id of the row it has inserted. No hook
  is ever subscribed to that channel (a hook subscribes to \<open>call_events\<close> only) and no
  handler is registered for a broadcast, so the offer delivered to any hook changes
  nothing. What the receiver is subscribed to beforehand is the store: the insert of
  the row, delivered to the hook of the receiver, sets its incoming and its current
  call.
\<close>

theorem offer_is_broadcast_on_the_call_channel:
  assumes "user w = Some uid"
    and "row = \<lparr>id_cs = gen_random_uuid env, caller_id = uid, receiver_id = receiverId,
                 call_type = callType, status = pending, started_at = None, ended_at = None\<rparr>"
    and "insert_into_call_sessions (Some uid) row (db w) = Inr d"
    and "permission env = None"
  shows
  "last (trace (startCall ipc env receiverId callType w)) =
     send (channel_name (id_cs row)) (call_offer (Some (created_offer env)) (id_cs row) callType) \<and>
   channel_name (id_cs row) \<notin> set (subscribed_channels w_r) \<and>
   callSubscription cl env' (broadcast ch m) w_r = w_r \<and>
   (user w_r = Some receiverId \<longrightarrow>
      callSubscription cl env' (postgres_INSERT row) w_r =
        w_r\<lparr>incomingCall := Some row, currentCall := Some row\<rparr>)"
proof (intro conjI impI)
  let ?w1 = "(log [store_insert row] w)\<lparr>db := d, currentCall := Some row\<rparr>"
  obtain stream w2 where g: "getUserMedia env (callType = video) True ?w1 = (Inr stream, w2)"
    using assms(4) by (simp add: getUserMedia_def Let_def)
  have "startCall ipc env receiverId callType w =
          sendOffer env row callType (addTracks stream (initializePeerConnection ipc w2))"
    using assms(1,3) g unfolding assms(2) by (simp add: startCall_def Let_def)
  moreover have "peerConnection (addTracks stream (initializePeerConnection ipc w2)) \<noteq> None"
    by (simp add: addTracks_def initializePeerConnection_def log_def split: option.splits)
  ultimately show "last (trace (startCall ipc env receiverId callType w)) =
     send (channel_name (id_cs row)) (call_offer (Some (created_offer env)) (id_cs row) callType)"
    by (auto simp: sendOffer_def log_def split: option.splits)
next
  show "channel_name (id_cs row) \<notin> set (subscribed_channels w_r)"
    by (simp add: subscribed_channels_def channel_name_def split: option.splits)
next
  show "callSubscription cl env' (broadcast ch m) w_r = w_r"
    by (rule callSubscription_broadcast)
next
  assume "user w_r = Some receiverId"
  then show "callSubscription cl env' (postgres_INSERT row) w_r =
        w_r\<lparr>incomingCall := Some row, currentCall := Some row\<rparr>"
    unfolding assms(2) by (simp add: callSubscription_def)
qed

text \<open>Alice's call to Bob, and Bob's hook as it is mounted.\<close>

theorem offer_is_broadcast_on_the_call_channel_witness:
  "user (mounted (Some ''alice'') two_users) = Some ''alice'' \<and>
   insert_into_call_sessions (Some ''alice'') pending_call
     (db (mounted (Some ''alice'') two_users)) = Inr one_call \<and>
   permission granted = None \<and>
   user (mounted (Some ''bob'') one_call) = Some ''bob'' \<and>
   last (trace alice_calling) = send ''call:c1'' (call_offer (Some ''v=0'') ''c1'' video) \<and>
   ''call:c1'' \<notin> set (subscribed_channels (mounted (Some ''bob'') one_call)) \<and>
   callSubscription \<lparr>ec_currentCall = None, ec_localStream = None\<rparr> granted
     (postgres_INSERT pending_call) (mounted (Some ''bob'') one_call) =
       (mounted (Some ''bob'') one_call)
         \<lparr>incomingCall := Some pending_call, currentCall := Some pending_call\<rparr>"
proof -
  let ?a = "mounted (Some ''alice'') two_users"
  let ?b = "mounted (Some ''bob'') one_call"
  have h1: "user ?a = Some ''alice''" by (simp add: mounted_def)
  have h2: "pending_call = \<lparr>id_cs = gen_random_uuid granted, caller_id = ''alice'',
      receiver_id = ''bob'', call_type = video, status = pending,
      started_at = None, ended_at = None\<rparr>"
    by (simp add: pending_call_def granted_def)
  have h3: "insert_into_call_sessions (Some ''alice'') pending_call (db ?a) = Inr one_call"
    by (simp add: insert_into_call_sessions_def users_can_create_calls_def cast_defs)
  have h4: "permission granted = None" by (simp add: granted_def)
  have h5: "user ?b = Some ''bob''" by (simp add: mounted_def)
  note t = offer_is_broadcast_on_the_call_channel [OF h1 h2 h3 h4,
    where ipc = first_render and w_r = ?b
      and cl = "\<lparr>ec_currentCall = None, ec_localStream = None\<rparr>" and env' = granted]
  have i: "channel_name ''c1'' = ''call:c1''"
    "id_cs pending_call = ''c1''" "created_offer granted = ''v=0''"
    by (simp_all add: channel_name_def pending_call_def granted_def)
  from t h5 have "last (trace alice_calling) =
       send ''call:c1'' (call_offer (Some ''v=0'') ''c1'' video) \<and>
     ''call:c1'' \<notin> set (subscribed_channels ?b) \<and>
     callSubscription \<lparr>ec_currentCall = None, ec_localStream = None\<rparr> granted
       (postgres_INSERT pending_call) ?b =
         ?b\<lparr>incomingCall := Some pending_call, currentCall := Some pending_call\<rparr>"
    unfolding alice_calling_def i by blast
  with h1 h3 h4 h5 show ?thesis by blast
qed

text \<open>
  C6, as the claim states it, fails. Bob has hung up: the row is \<open>ended\<close>, ended at
  7. Alice's \<open>endCall\<close>, in a closure that still holds the call, sends the update
  again and the row is ended at 9. And the same closure run twice in a row sends the
  update twice and stops the two tracks twice.
\<close>

theorem endCall_on_ended_session_counterexample:
  "find_session ''c1'' (db bob_hung_up) =
     Some (pending_call\<lparr>status := ended, started_at := Some 7, ended_at := Some 7\<rparr>) \<and>
   trace alice_hangs_up_too =
     trace alice_calling @
       [store_update ''c1''
          \<lparr>set_status = ended, set_started_at = None, set_ended_at = Some 9\<rparr>,
        close_peer_connection, stop_track 0, stop_track 1] \<and>
   find_session ''c1'' (db alice_hangs_up_too) =
     Some (pending_call\<lparr>status := ended, started_at := Some 7, ended_at := Some 9\<rparr>) \<and>
   trace (endCall (render_endCall alice_calling) late
            (endCall (render_endCall alice_calling) granted alice_calling)) =
     trace alice_calling @
       [store_update ''c1''
          \<lparr>set_status = ended, set_started_at = None, set_ended_at = Some 7\<rparr>,
        close_peer_connection, stop_track 0, stop_track 1,
        store_update ''c1''
          \<lparr>set_status = ended, set_started_at = None, set_ended_at = Some 9\<rparr>,
        stop_track 0, stop_track 1]"
proof -
  have a: "find_session ''c1'' (db bob_hung_up) =
     Some (pending_call\<lparr>status := ended, started_at := Some 7, ended_at := Some 7\<rparr>)"
    by (simp add: bob_hung_up_db find_session_def cast_defs)
  have b: "trace alice_hangs_up_too =
     trace alice_calling @
       [store_update ''c1''
          \<lparr>set_status = ended, set_started_at = None, set_ended_at = Some 9\<rparr>,
        close_peer_connection, stop_track 0, stop_track 1]"
    by (simp add: alice_hangs_up_too_def trace_endCall render_endCall_def
          alice_calling_state alice_calling_peerConnection late_def pending_call_def)
  have c: "find_session ''c1'' (db alice_hangs_up_too) =
     Some (pending_call\<lparr>status := ended, started_at := Some 7, ended_at := Some 9\<rparr>)"
    by (simp add: alice_hangs_up_too_def db_endCall render_endCall_def alice_calling_state
          bob_hung_up_db supabase_update_def update_call_sessions_def targeted_def
          users_can_update_their_calls_def apply_update_def find_session_def log_def
          Let_def late_def cast_defs)
  have d: "trace (endCall (render_endCall alice_calling) late
            (endCall (render_endCall alice_calling) granted alice_calling)) =
     trace alice_calling @
       [store_update ''c1''
          \<lparr>set_status = ended, set_started_at = None, set_ended_at = Some 7\<rparr>,
        close_peer_connection, stop_track 0, stop_track 1,
        store_update ''c1''
          \<lparr>set_status = ended, set_started_at = None, set_ended_at = Some 9\<rparr>,
        stop_track 0, stop_track 1]"
    by (simp add: trace_endCall endCall_state render_endCall_def alice_calling_state
          alice_calling_peerConnection late_def granted_def pending_call_def)
  from a b c d show ?thesis by blast
qed

text \<open>
  C6, amended. \<open>endCall\<close> always returns, and it is idempotent once its state updates
  are rendered: run again in the closure of the render that follows (which holds no
  current call and no stream), it sends nothing to the store, closes nothing, stops
  nothing and leaves the world as the first run left it. It does not read the status
  of the session: whenever its closure holds a current call it sends the update to
  \<open>ended\<close> with the time of the run, before anything else, also for a session that
  is ended already.
\<close>

theorem endCall_idempotent_once_rendered:
  "endCall (render_endCall (endCall cl env w)) env' (endCall cl env w) = endCall cl env w \<and>
   (ec_currentCall cl = Some c \<longrightarrow>
      (\<exists>es. trace (endCall cl env w) =
             trace w @ store_update (id_cs c)
               \<lparr>set_status = ended, set_started_at = None, set_ended_at = Some (now env)\<rparr> # es))"
proof (intro conjI impI)
  have r: "render_endCall (endCall cl env w) = \<lparr>ec_currentCall = None, ec_localStream = None\<rparr>"
    by (simp add: render_endCall_def endCall_state)
  show "endCall (render_endCall (endCall cl env w)) env' (endCall cl env w) = endCall cl env w"
    unfolding r by (rule endCall_nothing_to_do) (simp_all add: endCall_state)
next
  assume "ec_currentCall cl = Some c"
  then show "\<exists>es. trace (endCall cl env w) =
             trace w @ store_update (id_cs c)
               \<lparr>set_status = ended, set_started_at = None, set_ended_at = Some (now env)\<rparr> # es"
    by (simp add: trace_endCall)
qed

text \<open>
  Alice hangs up, and once more in the closure of the next render: the second run
  changes nothing, and the trace is the one of the first run.
\<close>

theorem endCall_idempotent_once_rendered_witness:
  "ec_currentCall (render_endCall alice_calling) = Some pending_call \<and>
   endCall (render_endCall (endCall (render_endCall alice_calling) granted alice_calling)) late
     (endCall (render_endCall alice_calling) granted alice_calling)
     = endCall (render_endCall alice_calling) granted alice_calling \<and>
   trace (endCall (render_endCall (endCall (render_endCall alice_calling) granted alice_calling)) late
     (endCall (render_endCall alice_calling) granted alice_calling)) =
     trace alice_calling @
       [store_update ''c1''
          \<lparr>set_status = ended, set_started_at = None, set_ended_at = Some 7\<rparr>,
        close_peer_connection, stop_track 0, stop_track 1]"
proof -
  have h: "ec_currentCall (render_endCall alice_calling) = Some pending_call"
    by (simp add: render_endCall_def alice_calling_state)
  note t = endCall_idempotent_once_rendered
    [where cl = "render_endCall alice_calling" and env = granted and w = alice_calling
       and env' = late and c = pending_call]
  from t have e: "endCall (render_endCall (endCall (render_endCall alice_calling) granted alice_calling)) late
     (endCall (render_endCall alice_calling) granted alice_calling)
     = endCall (render_endCall alice_calling) granted alice_calling" by blast
  have "trace (endCall (render_endCall alice_calling) granted alice_calling) =
     trace alice_calling @
       [store_update ''c1''
          \<lparr>set_status = ended, set_started_at = None, set_ended_at = Some 7\<rparr>,
        close_peer_connection, stop_track 0, stop_track 1]"
    by (simp add: trace_endCall render_endCall_def alice_calling_state
          alice_calling_peerConnection granted_def pending_call_def)
  with h e show ?thesis by simp
qed

text \<open>
  C7. The two parties of a call session always differ. The insert of a row whose caller
  is its receiver fails with an error of the database (the policy's, or else the
  violation of the table's check) and the table is as before; \<open>startCall\<close> to oneself
  therefore logs the error and changes nothing but the trace; and from a table in
  which the parties of every row differ, no sequence of callbacks and handlers of the
  hook, in whatever closures, leads to a table with a row whose parties are equal.
\<close>

theorem caller_is_never_receiver:
  "(caller_id r = receiver_id r \<longrightarrow>
      insert_into_call_sessions uid r d = Inl rls_violation \<or>
      insert_into_call_sessions uid r d = Inl check_violation) \<and>
   (user w = Some receiverId \<longrightarrow>
      startCall ipc env receiverId callType w =
        log [store_insert \<lparr>id_cs = gen_random_uuid env, caller_id = receiverId,
                            receiver_id = receiverId, call_type = callType, status = pending,
                            started_at = None, ended_at = None\<rparr>,
             console_error ''Error creating call session:''] w) \<and>
   (parties_differ (db w) \<longrightarrow> parties_differ (db (fold run as w)))"
proof (intro conjI impI)
  assume "caller_id r = receiver_id r"
  then show "insert_into_call_sessions uid r d = Inl rls_violation \<or>
             insert_into_call_sessions uid r d = Inl check_violation"
    by (simp add: insert_into_call_sessions_def)
next
  assume u: "user w = Some receiverId"
  let ?row = "\<lparr>id_cs = gen_random_uuid env, caller_id = receiverId, receiver_id = receiverId,
               call_type = callType, status = pending, started_at = None, ended_at = None\<rparr>"
  have "\<exists>e. insert_into_call_sessions (Some receiverId) ?row (db w) = Inl e"
    by (simp add: insert_into_call_sessions_def)
  then obtain e where "insert_into_call_sessions (Some receiverId) ?row (db w) = Inl e" ..
  with u show "startCall ipc env receiverId callType w =
      log [store_insert ?row, console_error ''Error creating call session:''] w"
    by (simp add: startCall_def Let_def log_def)
next
  assume "parties_differ (db w)"
  then show "parties_differ (db (fold run as w))" by (rule parties_differ_fold_run)
qed

text \<open>
  Alice, signed in, calls herself: the table stays empty and her hook holds no call;
  and after she calls Bob and ends the call, the one row has two parties.
\<close>

theorem caller_is_never_receiver_witness:
  "insert_into_call_sessions (Some ''alice'') (pending_call\<lparr>receiver_id := ''alice''\<rparr>) two_users
     = Inl check_violation \<and>
   call_sessions (db (startCall first_render granted ''alice'' video (mounted (Some ''alice'') two_users))) = [] \<and>
   currentCall (startCall first_render granted ''alice'' video (mounted (Some ''alice'') two_users)) = None \<and>
   parties_differ (db (fold run
      [StartCall first_render granted ''bob'' video,
       EndCall \<lparr>ec_currentCall = Some pending_call, ec_localStream = Some [0, 1]\<rparr> granted]
      (mounted (Some ''alice'') two_users)))"
proof -
  let ?w = "mounted (Some ''alice'') two_users"
  have u: "user ?w = Some ''alice''" by (simp add: mounted_def)
  have inv: "parties_differ (db ?w)" by (simp add: mounted_def two_users_def parties_differ_def)
  have cu: "caller_id (pending_call\<lparr>receiver_id := ''alice''\<rparr>)
              = receiver_id (pending_call\<lparr>receiver_id := ''alice''\<rparr>)"
    by (simp add: pending_call_def)
  note t = caller_is_never_receiver
    [of "pending_call\<lparr>receiver_id := ''alice''\<rparr>" "Some ''alice''" two_users ?w "''alice''"
        first_render granted video
        "[StartCall first_render granted ''bob'' video,
          EndCall \<lparr>ec_currentCall = Some pending_call, ec_localStream = Some [0, 1]\<rparr> granted]"]
  have a: "insert_into_call_sessions (Some ''alice'') (pending_call\<lparr>receiver_id := ''alice''\<rparr>) two_users
             = Inl check_violation"
    using t cu by (simp add: insert_into_call_sessions_def users_can_create_calls_def
                     pending_call_def two_users_def)
  have b: "startCall first_render granted ''alice'' video ?w =
        log [store_insert \<lparr>id_cs = gen_random_uuid granted, caller_id = ''alice'',
                            receiver_id = ''alice'', call_type = video, status = pending,
                            started_at = None, ended_at = None\<rparr>,
             console_error ''Error creating call session:''] ?w"
    using t u by blast
  have c: "parties_differ (db (fold run
      [StartCall first_render granted ''bob'' video,
       EndCall \<lparr>ec_currentCall = Some pending_call, ec_localStream = Some [0, 1]\<rparr> granted] ?w))"
    using t inv by blast
  have b1: "call_sessions (db (startCall first_render granted ''alice'' video ?w)) = []"
    unfolding b by (simp add: db_log mounted_def two_users_def)
  have b2: "currentCall (startCall first_render granted ''alice'' video ?w) = None"
    unfolding b by (simp add: log_def mounted_def)
  from a b1 b2 c show ?thesis by blast
qed

text \<open>
  C9. \<open>toggleVideo\<close> and \<open>toggleAudio\<close> change the heap of tracks and the flag
  \<open>isVideoEnabled\<close> (\<open>isAudioEnabled\<close>) that mirrors the track, and nothing else: put
  these two back and the world is the one before, so the database (the session and its
  status), the trace (no statement sent to the store, no description set, nothing sent
  on the transport), the peer connection, the streams and the current call are
  untouched. When the captured stream has a video (audio) track, the first such track
  has its \<open>enabled\<close> flag negated, keeps its kind and its ready state, the hook's flag
  takes the new value, and every other track is as before. When the closure holds no
  stream, or a stream with no track of the kind (the video of an audio call), the
  toggle changes nothing at all: no track is touched and the flag stays.
\<close>

theorem toggle_flips_flag_only:
  "(toggleVideo ls w)\<lparr>tracks := tracks w, isVideoEnabled := isVideoEnabled w\<rparr> = w \<and>
   (toggleAudio ls w)\<lparr>tracks := tracks w, isAudioEnabled := isAudioEnabled w\<rparr> = w \<and>
   (ls = Some stream \<and> getVideoTracks stream w = t # rest \<longrightarrow>
      enabled (tracks (toggleVideo ls w) t) = (\<not> enabled (tracks w t)) \<and>
      kind (tracks (toggleVideo ls w) t) = kind (tracks w t) \<and>
      readyState (tracks (toggleVideo ls w) t) = readyState (tracks w t) \<and>
      isVideoEnabled (toggleVideo ls w) = (\<not> enabled (tracks w t)) \<and>
      (\<forall>u. u \<noteq> t \<longrightarrow> tracks (toggleVideo ls w) u = tracks w u)) \<and>
   (ls = Some stream \<and> getAudioTracks stream w = t # rest \<longrightarrow>
      enabled (tracks (toggleAudio ls w) t) = (\<not> enabled (tracks w t)) \<and>
      kind (tracks (toggleAudio ls w) t) = kind (tracks w t) \<and>
      readyState (tracks (toggleAudio ls w) t) = readyState (tracks w t) \<and>
      isAudioEnabled (toggleAudio ls w) = (\<not> enabled (tracks w t)) \<and>
      (\<forall>u. u \<noteq> t \<longrightarrow> tracks (toggleAudio ls w) u = tracks w u)) \<and>
   (ls = None \<longrightarrow> toggleVideo ls w = w \<and> toggleAudio ls w = w) \<and>
   (ls = Some stream \<and> getVideoTracks stream w = [] \<longrightarrow> toggleVideo ls w = w) \<and>
   (ls = Some stream \<and> getAudioTracks stream w = [] \<longrightarrow> toggleAudio ls w = w)"
proof (intro conjI impI)
  show "(toggleVideo ls w)\<lparr>tracks := tracks w, isVideoEnabled := isVideoEnabled w\<rparr> = w"
    by (simp add: toggleVideo_def split: option.splits list.splits)
  show "(toggleAudio ls w)\<lparr>tracks := tracks w, isAudioEnabled := isAudioEnabled w\<rparr> = w"
    by (simp add: toggleAudio_def split: option.splits list.splits)
next
  assume "ls = Some stream \<and> getVideoTracks stream w = t # rest"
  then show "enabled (tracks (toggleVideo ls w) t) = (\<not> enabled (tracks w t))"
    and "kind (tracks (toggleVideo ls w) t) = kind (tracks w t)"
    and "readyState (tracks (toggleVideo ls w) t) = readyState (tracks w t)"
    and "isVideoEnabled (toggleVideo ls w) = (\<not> enabled (tracks w t))"
    and "\<forall>u. u \<noteq> t \<longrightarrow> tracks (toggleVideo ls w) u = tracks w u"
    by (simp_all add: toggleVideo_def)
next
  assume "ls = Some stream \<and> getAudioTracks stream w = t # rest"
  then show "enabled (tracks (toggleAudio ls w) t) = (\<not> enabled (tracks w t))"
    and "kind (tracks (toggleAudio ls w) t) = kind (tracks w t)"
    and "readyState (tracks (toggleAudio ls w) t) = readyState (tracks w t)"
    and "isAudioEnabled (toggleAudio ls w) = (\<not> enabled (tracks w t))"
    and "\<forall>u. u \<noteq> t \<longrightarrow> tracks (toggleAudio ls w) u = tracks w u"
    by (simp_all add: toggleAudio_def)
next
  assume "ls = None"
  then show "toggleVideo ls w = w" and "toggleAudio ls w = w"
    by (simp_all add: toggleVideo_def toggleAudio_def)
next
  assume "ls = Some stream \<and> getVideoTracks stream w = []"
  then show "toggleVideo ls w = w" by (simp add: toggleVideo_def)
next
  assume "ls = Some stream \<and> getAudioTracks stream w = []"
  then show "toggleAudio ls w = w" by (simp add: toggleAudio_def)
qed

text \<open>
  In the world her video call leaves, Alice's toggles disable track 1 (video) and track
  0 (audio) and touch nothing else. In the world of an audio call, whose stream is the
  one audio track, \<open>toggleVideo\<close> changes nothing; so does \<open>toggleAudio\<close> on a
  stream of the video track alone; and so do both in the closures of a hook at rest,
  which hold no stream.
\<close>

theorem toggle_flips_flag_only_witness:
  "getVideoTracks [0, 1] alice_calling = [1] \<and>
   enabled (tracks alice_calling 1) \<and>
   \<not> enabled (tracks (toggleVideo (Some [0, 1]) alice_calling) 1) \<and>
   \<not> isVideoEnabled (toggleVideo (Some [0, 1]) alice_calling) \<and>
   tracks (toggleVideo (Some [0, 1]) alice_calling) 0 = tracks alice_calling 0 \<and>
   getAudioTracks [0, 1] alice_calling = [0] \<and>
   \<not> enabled (tracks (toggleAudio (Some [0, 1]) alice_calling) 0) \<and>
   (toggleVideo (Some [0, 1]) alice_calling)
      \<lparr>tracks := tracks alice_calling, isVideoEnabled := isVideoEnabled alice_calling\<rparr>
     = alice_calling \<and>
   localStream alice_calling_audio = Some [0] \<and>
   getVideoTracks [0] alice_calling_audio = [] \<and>
   toggleVideo (Some [0]) alice_calling_audio = alice_calling_audio \<and>
   getAudioTracks [1] alice_calling = [] \<and>
   toggleAudio (Some [1]) alice_calling = alice_calling \<and>
   ec_localStream (last_render alice_hook) = None \<and>
   toggleVideo None (hook_world alice_hook) = hook_world alice_hook \<and>
   toggleAudio None (hook_world alice_hook) = hook_world alice_hook"
proof -
  have v: "getVideoTracks [0, 1] alice_calling = [1]"
    by (simp add: getVideoTracks_def alice_calling_tracks)
  have a: "getAudioTracks [0, 1] alice_calling = [0]"
    by (simp add: getAudioTracks_def alice_calling_tracks)
  have e: "enabled (tracks alice_calling 1)" "enabled (tracks alice_calling 0)"
    by (simp_all add: alice_calling_tracks)
  have s: "localStream alice_calling_audio = Some [0]"
    and k: "tracks alice_calling_audio 0 = \<lparr>kind = audio_track, enabled = True, readyState = live\<rparr>"
    by (simp_all add: alice_calling_audio_def hook_defs cast_defs Let_def)
  have nv: "getVideoTracks [0] alice_calling_audio = []"
    by (simp add: getVideoTracks_def k)
  have na: "getAudioTracks [1] alice_calling = []"
    by (simp add: getAudioTracks_def alice_calling_tracks)
  have r: "ec_localStream (last_render alice_hook) = None"
    using at_rest_step [OF at_rest_mount, of granted "call_startCall ''bob'' video"
            "Some ''alice''" two_users]
    by (simp add: alice_hook_def at_rest_def)
  note tv = toggle_flips_flag_only
    [where ls = "Some [0, 1]" and w = alice_calling and stream = "[0, 1]" and t = 1 and rest = "[]"]
  note ta = toggle_flips_flag_only
    [where ls = "Some [0, 1]" and w = alice_calling and stream = "[0, 1]" and t = 0 and rest = "[]"]
  note tnv = toggle_flips_flag_only
    [where ls = "Some [0]" and w = alice_calling_audio and stream = "[0]"]
  note tna = toggle_flips_flag_only
    [where ls = "Some [1]" and w = alice_calling and stream = "[1]"]
  note tn = toggle_flips_flag_only [where ls = None and w = "hook_world alice_hook"]
  from tv v e ta a have 1:
    "\<not> enabled (tracks (toggleVideo (Some [0, 1]) alice_calling) 1) \<and>
     \<not> isVideoEnabled (toggleVideo (Some [0, 1]) alice_calling) \<and>
     tracks (toggleVideo (Some [0, 1]) alice_calling) 0 = tracks alice_calling 0 \<and>
     \<not> enabled (tracks (toggleAudio (Some [0, 1]) alice_calling) 0) \<and>
     (toggleVideo (Some [0, 1]) alice_calling)
        \<lparr>tracks := tracks alice_calling, isVideoEnabled := isVideoEnabled alice_calling\<rparr>
       = alice_calling"
    by simp
  from tnv nv have 2: "toggleVideo (Some [0]) alice_calling_audio = alice_calling_audio"
    by simp
  from tna na have 3: "toggleAudio (Some [1]) alice_calling = alice_calling" by simp
  from tn have 4: "toggleVideo None (hook_world alice_hook) = hook_world alice_hook"
    "toggleAudio None (hook_world alice_hook) = hook_world alice_hook" by simp_all
  from v e a 1 s nv 2 na 3 r 4 show ?thesis by simp
qed

text \<open>
  C10. \<open>acceptCall\<close> run by a closure that holds no current call returns at once: the
  world it leaves is the world it found, whatever the id it was given and whatever the
  store holds for that id.
\<close>

theorem acceptCall_without_currentCall:
  "captured_currentCall = None \<Longrightarrow> acceptCall captured_currentCall ipc env callId w = w"
  by (simp add: acceptCall_def)

text \<open>
  Bob's hook holds no call while the table has Alice's pending call to him: accepting
  that call by its id leaves the row pending and the hook as it was.
\<close>

theorem acceptCall_without_currentCall_witness:
  "find_session ''c1'' (db (mounted (Some ''bob'') one_call)) = Some pending_call \<and>
   acceptCall None first_render granted ''c1'' (mounted (Some ''bob'') one_call)
     = mounted (Some ''bob'') one_call"
  using acceptCall_without_currentCall [of None first_render granted "''c1''"
          "mounted (Some ''bob'') one_call"]
  by (simp add: find_session_def mounted_def one_call_def pending_call_def)

end
